theory Spec2Isabelle
  imports Main "HOL-Library.Sublist"
begin

section \<open>Text: Python strings, numbers and dates as the handlers print them\<close>

text \<open>
  A Python \<open>str\<close> is modelled as a \<open>string\<close> holding its UTF-8 bytes. The handlers
  only concatenate and compare texts, and UTF-8 encoding distributes over concatenation,
  so nothing below depends on the number of code points. The Ukrainian literals of the
  source are written byte by byte; each one carries an English gloss.
\<close>

definition lbl_title :: string where
  \<comment> \<open>integrations.py:170, the heading of the notes (''Results of the technical interview'') and a blank line\<close>
  "lbl_title =
    ''## ''
    @ [CHR 0xD0, CHR 0xA0, CHR 0xD0, CHR 0xB5, CHR 0xD0, CHR 0xB7, CHR 0xD1, CHR 0x83,
      CHR 0xD0, CHR 0xBB, CHR 0xD1, CHR 0x8C, CHR 0xD1, CHR 0x82, CHR 0xD0, CHR 0xB0,
      CHR 0xD1, CHR 0x82, CHR 0xD0, CHR 0xB8]
    @ '' ''
    @ [CHR 0xD1, CHR 0x82, CHR 0xD0, CHR 0xB5, CHR 0xD1, CHR 0x85, CHR 0xD0, CHR 0xBD,
      CHR 0xD1, CHR 0x96, CHR 0xD1, CHR 0x87, CHR 0xD0, CHR 0xBD, CHR 0xD0, CHR 0xBE,
      CHR 0xD1, CHR 0x97]
    @ '' ''
    @ [CHR 0xD1, CHR 0x81, CHR 0xD0, CHR 0xBF, CHR 0xD1, CHR 0x96, CHR 0xD0, CHR 0xB2,
      CHR 0xD0, CHR 0xB1, CHR 0xD0, CHR 0xB5, CHR 0xD1, CHR 0x81, CHR 0xD1, CHR 0x96,
      CHR 0xD0, CHR 0xB4, CHR 0xD0, CHR 0xB8, CHR 0x0A, CHR 0x0A]"

definition lbl_position :: string where
  \<comment> \<open>integrations.py:171, the label ''Position:''\<close>
  "lbl_position =
    ''**''
    @ [CHR 0xD0, CHR 0x9F, CHR 0xD0, CHR 0xBE, CHR 0xD0, CHR 0xB7, CHR 0xD0, CHR 0xB8,
      CHR 0xD1, CHR 0x86, CHR 0xD1, CHR 0x96, CHR 0xD1, CHR 0x8F]
    @ '':** ''"

definition lbl_date :: string where
  \<comment> \<open>integrations.py:172, the label ''Interview date:''\<close>
  "lbl_date =
    ''**''
    @ [CHR 0xD0, CHR 0x94, CHR 0xD0, CHR 0xB0, CHR 0xD1, CHR 0x82, CHR 0xD0, CHR 0xB0]
    @ '' ''
    @ [CHR 0xD1, CHR 0x96, CHR 0xD0, CHR 0xBD, CHR 0xD1, CHR 0x82, CHR 0xD0, CHR 0xB5,
      CHR 0xD1, CHR 0x80, CHR 0xD0, CHR 0xB2, CHR 0x27, CHR 0xD1, CHR 0x8E]
    @ '':** ''"

definition lbl_interviewers :: string where
  \<comment> \<open>integrations.py:175, the label ''Interviewers:''\<close>
  "lbl_interviewers =
    ''**''
    @ [CHR 0xD0, CHR 0x86, CHR 0xD0, CHR 0xBD, CHR 0xD1, CHR 0x82, CHR 0xD0, CHR 0xB5,
      CHR 0xD1, CHR 0x80, CHR 0xD0, CHR 0xB2, CHR 0x27, CHR 0xD1, CHR 0x8E, CHR 0xD0,
      CHR 0xB5, CHR 0xD1, CHR 0x80, CHR 0xD0, CHR 0xB8]
    @ '':**''
    @ [CHR 0x0A]"

definition lbl_scores :: string where
  \<comment> \<open>integrations.py:179, the label ''Scores:''\<close>
  "lbl_scores =
    [CHR 0x0A]
    @ ''**''
    @ [CHR 0xD0, CHR 0x9E, CHR 0xD1, CHR 0x86, CHR 0xD1, CHR 0x96, CHR 0xD0, CHR 0xBD,
      CHR 0xD0, CHR 0xBA, CHR 0xD0, CHR 0xB8]
    @ '':**''
    @ [CHR 0x0A]"

definition lbl_passed :: string where
  \<comment> \<open>integrations.py:184, the label ''Passed''\<close>
  "lbl_passed =
    [CHR 0xD0, CHR 0x9F, CHR 0xD1, CHR 0x80, CHR 0xD0, CHR 0xBE, CHR 0xD0, CHR 0xB9,
      CHR 0xD1, CHR 0x88, CHR 0xD0, CHR 0xBE, CHR 0xD0, CHR 0xB2]"

definition lbl_not_passed :: string where
  \<comment> \<open>integrations.py:184, the label ''Did not pass''\<close>
  "lbl_not_passed =
    [CHR 0xD0, CHR 0x9D, CHR 0xD0, CHR 0xB5]
    @ '' ''
    @ [CHR 0xD0, CHR 0xBF, CHR 0xD1, CHR 0x80, CHR 0xD0, CHR 0xBE, CHR 0xD0, CHR 0xB9,
      CHR 0xD1, CHR 0x88, CHR 0xD0, CHR 0xBE, CHR 0xD0, CHR 0xB2]"

definition lbl_total :: string where
  \<comment> \<open>integrations.py:185, ''- Total score: ''\<close>
  "lbl_total =
    ''- ''
    @ [CHR 0xD0, CHR 0x97, CHR 0xD0, CHR 0xB0, CHR 0xD0, CHR 0xB3, CHR 0xD0, CHR 0xB0,
      CHR 0xD0, CHR 0xBB, CHR 0xD1, CHR 0x8C, CHR 0xD0, CHR 0xBD, CHR 0xD0, CHR 0xB0]
    @ '' ''
    @ [CHR 0xD0, CHR 0xBE, CHR 0xD1, CHR 0x86, CHR 0xD1, CHR 0x96, CHR 0xD0, CHR 0xBD,
      CHR 0xD0, CHR 0xBA, CHR 0xD0, CHR 0xB0]
    @ '': ''"

definition lbl_of :: string where
  \<comment> \<open>integrations.py:185, '' of ''\<close>
  "lbl_of =
    '' ''
    @ [CHR 0xD0, CHR 0xB7]
    @ '' ''"

definition lbl_required :: string where
  \<comment> \<open>integrations.py:185, '' required'' and the line end\<close>
  "lbl_required =
    '' ''
    @ [CHR 0xD0, CHR 0xBD, CHR 0xD0, CHR 0xB5, CHR 0xD0, CHR 0xBE, CHR 0xD0, CHR 0xB1,
      CHR 0xD1, CHR 0x85, CHR 0xD1, CHR 0x96, CHR 0xD0, CHR 0xB4, CHR 0xD0, CHR 0xBD,
      CHR 0xD0, CHR 0xB8, CHR 0xD1, CHR 0x85, CHR 0x0A]"

definition lbl_result :: string where
  \<comment> \<open>integrations.py:186, ''- Result: ''\<close>
  "lbl_result =
    ''- ''
    @ [CHR 0xD0, CHR 0xA0, CHR 0xD0, CHR 0xB5, CHR 0xD0, CHR 0xB7, CHR 0xD1, CHR 0x83,
      CHR 0xD0, CHR 0xBB, CHR 0xD1, CHR 0x8C, CHR 0xD1, CHR 0x82, CHR 0xD0, CHR 0xB0,
      CHR 0xD1, CHR 0x82]
    @ '': ''"

definition lbl_feedback :: string where
  \<comment> \<open>integrations.py:190, the label ''Feedback:''\<close>
  "lbl_feedback =
    ''**''
    @ [CHR 0xD0, CHR 0x92, CHR 0xD1, CHR 0x96, CHR 0xD0, CHR 0xB4, CHR 0xD0, CHR 0xB3,
      CHR 0xD1, CHR 0x83, CHR 0xD0, CHR 0xBA]
    @ '':**''
    @ [CHR 0x0A]"

definition lbl_recommendations :: string where
  \<comment> \<open>integrations.py:194, the label ''Recommendations:''\<close>
  "lbl_recommendations =
    [CHR 0x0A, CHR 0x0A]
    @ ''**''
    @ [CHR 0xD0, CHR 0xA0, CHR 0xD0, CHR 0xB5, CHR 0xD0, CHR 0xBA, CHR 0xD0, CHR 0xBE,
      CHR 0xD0, CHR 0xBC, CHR 0xD0, CHR 0xB5, CHR 0xD0, CHR 0xBD, CHR 0xD0, CHR 0xB4,
      CHR 0xD0, CHR 0xB0, CHR 0xD1, CHR 0x86, CHR 0xD1, CHR 0x96, CHR 0xD1, CHR 0x97]
    @ '':**''
    @ [CHR 0x0A]"

definition msg_sync_success :: string where
  \<comment> \<open>integrations.py:209\<close>
  "msg_sync_success =
    [CHR 0xD0, CHR 0x94, CHR 0xD0, CHR 0xB0, CHR 0xD0, CHR 0xBD, CHR 0xD1, CHR 0x96]
    @ '' ''
    @ [CHR 0xD1, CHR 0x83, CHR 0xD1, CHR 0x81, CHR 0xD0, CHR 0xBF, CHR 0xD1, CHR 0x96,
      CHR 0xD1, CHR 0x88, CHR 0xD0, CHR 0xBD, CHR 0xD0, CHR 0xBE]
    @ '' ''
    @ [CHR 0xD1, CHR 0x81, CHR 0xD0, CHR 0xB8, CHR 0xD0, CHR 0xBD, CHR 0xD1, CHR 0x85,
      CHR 0xD1, CHR 0x80, CHR 0xD0, CHR 0xBE, CHR 0xD0, CHR 0xBD, CHR 0xD1, CHR 0x96,
      CHR 0xD0, CHR 0xB7, CHR 0xD0, CHR 0xBE, CHR 0xD0, CHR 0xB2, CHR 0xD0, CHR 0xB0,
      CHR 0xD0, CHR 0xBD, CHR 0xD0, CHR 0xBE]
    @ '' ''
    @ [CHR 0xD0, CHR 0xB7]
    @ '' PeopleForce''"

definition msg_sync_error :: string where
  \<comment> \<open>integrations.py:214, the prefix of the detail\<close>
  "msg_sync_error =
    [CHR 0xD0, CHR 0x9F, CHR 0xD0, CHR 0xBE, CHR 0xD0, CHR 0xBC, CHR 0xD0, CHR 0xB8,
      CHR 0xD0, CHR 0xBB, CHR 0xD0, CHR 0xBA, CHR 0xD0, CHR 0xB0]
    @ '' ''
    @ [CHR 0xD0, CHR 0xBF, CHR 0xD1, CHR 0x80, CHR 0xD0, CHR 0xB8]
    @ '' ''
    @ [CHR 0xD1, CHR 0x81, CHR 0xD0, CHR 0xB8, CHR 0xD0, CHR 0xBD, CHR 0xD1, CHR 0x85,
      CHR 0xD1, CHR 0x80, CHR 0xD0, CHR 0xBE, CHR 0xD0, CHR 0xBD, CHR 0xD1, CHR 0x96,
      CHR 0xD0, CHR 0xB7, CHR 0xD0, CHR 0xB0, CHR 0xD1, CHR 0x86, CHR 0xD1, CHR 0x96,
      CHR 0xD1, CHR 0x97]
    @ '' ''
    @ [CHR 0xD0, CHR 0xB4, CHR 0xD0, CHR 0xB0, CHR 0xD0, CHR 0xBD, CHR 0xD0, CHR 0xB8,
      CHR 0xD1, CHR 0x85]
    @ '' ''
    @ [CHR 0xD0, CHR 0xB7]
    @ '' PeopleForce: ''"

definition msg_notes_error :: string where
  \<comment> \<open>integrations.py:66, the prefix of the detail\<close>
  "msg_notes_error =
    [CHR 0xD0, CHR 0x9F, CHR 0xD0, CHR 0xBE, CHR 0xD0, CHR 0xBC, CHR 0xD0, CHR 0xB8,
      CHR 0xD0, CHR 0xBB, CHR 0xD0, CHR 0xBA, CHR 0xD0, CHR 0xB0]
    @ '' ''
    @ [CHR 0xD0, CHR 0xBE, CHR 0xD0, CHR 0xBD, CHR 0xD0, CHR 0xBE, CHR 0xD0, CHR 0xB2,
      CHR 0xD0, CHR 0xBB, CHR 0xD0, CHR 0xB5, CHR 0xD0, CHR 0xBD, CHR 0xD0, CHR 0xBD,
      CHR 0xD1, CHR 0x8F]
    @ '' ''
    @ [CHR 0xD0, CHR 0xBD, CHR 0xD0, CHR 0xBE, CHR 0xD1, CHR 0x82, CHR 0xD0, CHR 0xB0,
      CHR 0xD1, CHR 0x82, CHR 0xD0, CHR 0xBE, CHR 0xD0, CHR 0xBA]
    @ '' ''
    @ [CHR 0xD0, CHR 0xBA, CHR 0xD0, CHR 0xB0, CHR 0xD0, CHR 0xBD, CHR 0xD0, CHR 0xB4,
      CHR 0xD0, CHR 0xB8, CHR 0xD0, CHR 0xB4, CHR 0xD0, CHR 0xB0, CHR 0xD1, CHR 0x82,
      CHR 0xD0, CHR 0xB0]
    @ '' ''
    @ [CHR 0xD0, CHR 0xB2]
    @ '' PeopleForce: ''"

definition msg_form_not_found :: string where
  \<comment> \<open>api: ''Interview form not found''\<close>
  "msg_form_not_found =
    [CHR 0xD0, CHR 0xA4, CHR 0xD0, CHR 0xBE, CHR 0xD1, CHR 0x80, CHR 0xD0, CHR 0xBC,
      CHR 0xD1, CHR 0x83]
    @ '' ''
    @ [CHR 0xD1, CHR 0x96, CHR 0xD0, CHR 0xBD, CHR 0xD1, CHR 0x82, CHR 0xD0, CHR 0xB5,
      CHR 0xD1, CHR 0x80, CHR 0xD0, CHR 0xB2, CHR 0x27, CHR 0xD1, CHR 0x8E]
    @ '' ''
    @ [CHR 0xD0, CHR 0xBD, CHR 0xD0, CHR 0xB5]
    @ '' ''
    @ [CHR 0xD0, CHR 0xB7, CHR 0xD0, CHR 0xBD, CHR 0xD0, CHR 0xB0, CHR 0xD0, CHR 0xB9,
      CHR 0xD0, CHR 0xB4, CHR 0xD0, CHR 0xB5, CHR 0xD0, CHR 0xBD, CHR 0xD0, CHR 0xBE]"

definition msg_interview_not_found :: string where
  \<comment> \<open>interview_service.py:49, ''Interview form not found''\<close>
  "msg_interview_not_found =
    [CHR 0xD0, CHR 0xA4, CHR 0xD0, CHR 0xBE, CHR 0xD1, CHR 0x80, CHR 0xD0, CHR 0xBC,
      CHR 0xD1, CHR 0x83]
    @ '' ''
    @ [CHR 0xD1, CHR 0x81, CHR 0xD0, CHR 0xBF, CHR 0xD1, CHR 0x96, CHR 0xD0, CHR 0xB2,
      CHR 0xD0, CHR 0xB1, CHR 0xD0, CHR 0xB5, CHR 0xD1, CHR 0x81, CHR 0xD1, CHR 0x96,
      CHR 0xD0, CHR 0xB4, CHR 0xD0, CHR 0xB8]
    @ '' ''
    @ [CHR 0xD0, CHR 0xBD, CHR 0xD0, CHR 0xB5]
    @ '' ''
    @ [CHR 0xD0, CHR 0xB7, CHR 0xD0, CHR 0xBD, CHR 0xD0, CHR 0xB0, CHR 0xD0, CHR 0xB9,
      CHR 0xD0, CHR 0xB4, CHR 0xD0, CHR 0xB5, CHR 0xD0, CHR 0xBD, CHR 0xD0, CHR 0xBE]"

definition msg_template_not_found :: string where
  \<comment> \<open>''Template not found''\<close>
  "msg_template_not_found =
    [CHR 0xD0, CHR 0xA8, CHR 0xD0, CHR 0xB0, CHR 0xD0, CHR 0xB1, CHR 0xD0, CHR 0xBB,
      CHR 0xD0, CHR 0xBE, CHR 0xD0, CHR 0xBD]
    @ '' ''
    @ [CHR 0xD0, CHR 0xBD, CHR 0xD0, CHR 0xB5]
    @ '' ''
    @ [CHR 0xD0, CHR 0xB7, CHR 0xD0, CHR 0xBD, CHR 0xD0, CHR 0xB0, CHR 0xD0, CHR 0xB9,
      CHR 0xD0, CHR 0xB4, CHR 0xD0, CHR 0xB5, CHR 0xD0, CHR 0xBD, CHR 0xD0, CHR 0xBE]"


definition msg_question_with_id :: string where
  \<comment> \<open>''Question with ID ''\<close>
  "msg_question_with_id =
    [CHR 0xD0, CHR 0x9F, CHR 0xD0, CHR 0xB8, CHR 0xD1, CHR 0x82, CHR 0xD0, CHR 0xB0,
      CHR 0xD0, CHR 0xBD, CHR 0xD0, CHR 0xBD, CHR 0xD1, CHR 0x8F]
    @ '' ''
    @ [CHR 0xD0, CHR 0xB7]
    @ '' ID ''"

definition msg_not_found_suffix :: string where
  \<comment> \<open>'' not found''\<close>
  "msg_not_found_suffix =
    '' ''
    @ [CHR 0xD0, CHR 0xBD, CHR 0xD0, CHR 0xB5]
    @ '' ''
    @ [CHR 0xD0, CHR 0xB7, CHR 0xD0, CHR 0xBD, CHR 0xD0, CHR 0xB0, CHR 0xD0, CHR 0xB9,
      CHR 0xD0, CHR 0xB4, CHR 0xD0, CHR 0xB5, CHR 0xD0, CHR 0xBD, CHR 0xD0, CHR 0xBE]"

definition msg_not_in_template_suffix :: string where
  \<comment> \<open>'' not found in this template''\<close>
  "msg_not_in_template_suffix =
    '' ''
    @ [CHR 0xD0, CHR 0xBD, CHR 0xD0, CHR 0xB5]
    @ '' ''
    @ [CHR 0xD0, CHR 0xB7, CHR 0xD0, CHR 0xBD, CHR 0xD0, CHR 0xB0, CHR 0xD0, CHR 0xB9,
      CHR 0xD0, CHR 0xB4, CHR 0xD0, CHR 0xB5, CHR 0xD0, CHR 0xBD, CHR 0xD0, CHR 0xBE]
    @ '' ''
    @ [CHR 0xD0, CHR 0xB2]
    @ '' ''
    @ [CHR 0xD1, CHR 0x86, CHR 0xD1, CHR 0x8C, CHR 0xD0, CHR 0xBE, CHR 0xD0, CHR 0xBC,
      CHR 0xD1, CHR 0x83]
    @ '' ''
    @ [CHR 0xD1, CHR 0x88, CHR 0xD0, CHR 0xB0, CHR 0xD0, CHR 0xB1, CHR 0xD0, CHR 0xBB,
      CHR 0xD0, CHR 0xBE, CHR 0xD0, CHR 0xBD, CHR 0xD1, CHR 0x96]"

definition msg_interviewer_not_found :: string where
  \<comment> \<open>''Interviewer not found''\<close>
  "msg_interviewer_not_found =
    [CHR 0xD0, CHR 0x86, CHR 0xD0, CHR 0xBD, CHR 0xD1, CHR 0x82, CHR 0xD0, CHR 0xB5,
      CHR 0xD1, CHR 0x80, CHR 0xD0, CHR 0xB2, CHR 0x27, CHR 0xD1, CHR 0x8E, CHR 0xD0,
      CHR 0xB5, CHR 0xD1, CHR 0x80, CHR 0xD0, CHR 0xB0]
    @ '' ''
    @ [CHR 0xD0, CHR 0xBD, CHR 0xD0, CHR 0xB5]
    @ '' ''
    @ [CHR 0xD0, CHR 0xB7, CHR 0xD0, CHR 0xBD, CHR 0xD0, CHR 0xB0, CHR 0xD0, CHR 0xB9,
      CHR 0xD0, CHR 0xB4, CHR 0xD0, CHR 0xB5, CHR 0xD0, CHR 0xBD, CHR 0xD0, CHR 0xBE]"

definition msg_interviewer_already_added :: string where
  \<comment> \<open>''The interviewer is already added to this form''\<close>
  "msg_interviewer_already_added =
    [CHR 0xD0, CHR 0x86, CHR 0xD0, CHR 0xBD, CHR 0xD1, CHR 0x82, CHR 0xD0, CHR 0xB5,
      CHR 0xD1, CHR 0x80, CHR 0xD0, CHR 0xB2, CHR 0x27, CHR 0xD1, CHR 0x8E, CHR 0xD0,
      CHR 0xB5, CHR 0xD1, CHR 0x80]
    @ '' ''
    @ [CHR 0xD0, CHR 0xB2, CHR 0xD0, CHR 0xB6, CHR 0xD0, CHR 0xB5]
    @ '' ''
    @ [CHR 0xD0, CHR 0xB4, CHR 0xD0, CHR 0xBE, CHR 0xD0, CHR 0xB4, CHR 0xD0, CHR 0xB0,
      CHR 0xD0, CHR 0xBD, CHR 0xD0, CHR 0xB8, CHR 0xD0, CHR 0xB9]
    @ '' ''
    @ [CHR 0xD0, CHR 0xB4, CHR 0xD0, CHR 0xBE]
    @ '' ''
    @ [CHR 0xD1, CHR 0x86, CHR 0xD1, CHR 0x96, CHR 0xD1, CHR 0x94, CHR 0xD1, CHR 0x97]
    @ '' ''
    @ [CHR 0xD1, CHR 0x84, CHR 0xD0, CHR 0xBE, CHR 0xD1, CHR 0x80, CHR 0xD0, CHR 0xBC,
      CHR 0xD0, CHR 0xB8]"

definition msg_interviewer_not_member :: string where
  \<comment> \<open>''The interviewer is not a member of this form''\<close>
  "msg_interviewer_not_member =
    [CHR 0xD0, CHR 0x86, CHR 0xD0, CHR 0xBD, CHR 0xD1, CHR 0x82, CHR 0xD0, CHR 0xB5,
      CHR 0xD1, CHR 0x80, CHR 0xD0, CHR 0xB2, CHR 0x27, CHR 0xD1, CHR 0x8E, CHR 0xD0,
      CHR 0xB5, CHR 0xD1, CHR 0x80]
    @ '' ''
    @ [CHR 0xD0, CHR 0xBD, CHR 0xD0, CHR 0xB5]
    @ '' ''
    @ [CHR 0xD1, CHR 0x94]
    @ '' ''
    @ [CHR 0xD1, CHR 0x83, CHR 0xD1, CHR 0x87, CHR 0xD0, CHR 0xB0, CHR 0xD1, CHR 0x81,
      CHR 0xD0, CHR 0xBD, CHR 0xD0, CHR 0xB8, CHR 0xD0, CHR 0xBA, CHR 0xD0, CHR 0xBE,
      CHR 0xD0, CHR 0xBC]
    @ '' ''
    @ [CHR 0xD1, CHR 0x86, CHR 0xD1, CHR 0x96, CHR 0xD1, CHR 0x94, CHR 0xD1, CHR 0x97]
    @ '' ''
    @ [CHR 0xD1, CHR 0x84, CHR 0xD0, CHR 0xBE, CHR 0xD1, CHR 0x80, CHR 0xD0, CHR 0xBC,
      CHR 0xD0, CHR 0xB8]"

definition msg_feedback_exists :: string where
  \<comment> \<open>''Feedback for this form already exists''\<close>
  "msg_feedback_exists =
    [CHR 0xD0, CHR 0x92, CHR 0xD1, CHR 0x96, CHR 0xD0, CHR 0xB4, CHR 0xD0, CHR 0xB3,
      CHR 0xD1, CHR 0x83, CHR 0xD0, CHR 0xBA]
    @ '' ''
    @ [CHR 0xD0, CHR 0xB4, CHR 0xD0, CHR 0xBB, CHR 0xD1, CHR 0x8F]
    @ '' ''
    @ [CHR 0xD1, CHR 0x86, CHR 0xD1, CHR 0x96, CHR 0xD1, CHR 0x94, CHR 0xD1, CHR 0x97]
    @ '' ''
    @ [CHR 0xD1, CHR 0x84, CHR 0xD0, CHR 0xBE, CHR 0xD1, CHR 0x80, CHR 0xD0, CHR 0xBC,
      CHR 0xD0, CHR 0xB8]
    @ '' ''
    @ [CHR 0xD0, CHR 0xB2, CHR 0xD0, CHR 0xB6, CHR 0xD0, CHR 0xB5]
    @ '' ''
    @ [CHR 0xD1, CHR 0x96, CHR 0xD1, CHR 0x81, CHR 0xD0, CHR 0xBD, CHR 0xD1, CHR 0x83,
      CHR 0xD1, CHR 0x94]"

definition nl :: string where
  "nl = [CHR 0x0A]"

definition digit_char :: "nat \<Rightarrow> char" where
  "digit_char n = ''0123456789'' ! (n mod 10)"

fun str_nat :: "nat \<Rightarrow> string" where
  "str_nat n = (if n < 10 then [digit_char n] else str_nat (n div 10) @ [digit_char n])"

declare str_nat.simps [simp del]

definition str_int :: "int \<Rightarrow> string" where
  \<comment> \<open>Python's \<open>str(i)\<close>, as an f-string prints an \<open>int\<close>\<close>
  "str_int i = (if i < 0 then ''-'' @ str_nat (nat (- i)) else str_nat (nat i))"

definition str_opt :: "string option \<Rightarrow> string" where
  \<comment> \<open>an f-string prints a nullable text column: \<open>None\<close> prints as the word None\<close>
  "str_opt v = (case v of None \<Rightarrow> ''None'' | Some s \<Rightarrow> s)"

definition zfill :: "nat \<Rightarrow> string \<Rightarrow> string" where
  "zfill w s = replicate (w - length s) (CHR ''0'') @ s"

record datetime =
  dt_year :: nat
  dt_month :: nat
  dt_day :: nat
  dt_hour :: nat
  dt_minute :: nat
  dt_second :: nat

definition strftime_Ymd_HM :: "datetime \<Rightarrow> string" where
  \<comment> \<open>\<open>strftime('%Y-%m-%d %H:%M')\<close>: the year as the C library prints it, with no leading zeros; month, day, hour and minute zero-padded to 2 digits\<close>
  "strftime_Ymd_HM d =
     str_nat (dt_year d) @ ''-'' @ zfill 2 (str_nat (dt_month d)) @ ''-''
     @ zfill 2 (str_nat (dt_day d)) @ '' '' @ zfill 2 (str_nat (dt_hour d)) @ '':''
     @ zfill 2 (str_nat (dt_minute d))"

fun lex_le :: "nat list \<Rightarrow> nat list \<Rightarrow> bool" where
  "lex_le [] ys = True"
| "lex_le (x # xs) [] = False"
| "lex_le (x # xs) (y # ys) = (x < y \<or> (x = y \<and> lex_le xs ys))"

definition dt_fields :: "datetime \<Rightarrow> nat list" where
  "dt_fields d = [dt_year d, dt_month d, dt_day d, dt_hour d, dt_minute d, dt_second d]"

definition dt_le :: "datetime \<Rightarrow> datetime \<Rightarrow> bool" where
  \<comment> \<open>the order of two timestamps, as \<open>>=\<close> and \<open><=\<close> compare them in a query\<close>
  "dt_le a b = lex_le (dt_fields a) (dt_fields b)"

section \<open>The persistence model (app/db/models.py)\<close>

text \<open>
  One record per mapped class, one field per column; the \<open>created_at\<close> and
  \<open>updated_at\<close> stamps, which no handler below reads, are left out. A \<open>Float\<close> column
  has the abstract type \<open>'f\<close>: the handlers never compute with a float, they store it and
  print it, and the printing function is a parameter of the one handler that prints.
  The two association tables are lists of key pairs; a table is a list of rows in the
  order a query without \<open>ORDER BY\<close> returns them.
\<close>

record application_template =
  tpl_id :: int
  tpl_name :: string
  tpl_description :: "string option"
  tpl_position :: string

record 'f question =
  q_id :: int
  q_text :: string
  q_weight :: 'f
  q_docs_reference :: "string option"
  q_priority :: int
  q_unit_id :: "int option"
  q_difficulty_id :: "int option"
  q_level_id :: "int option"
  q_group_id :: "int option"

record interviewer =
  iv_id :: int
  iv_name :: string
  iv_email :: string
  iv_position :: "string option"

record interview_form =
  form_id :: int
  form_candidate_id :: string
  form_candidate_name :: string
  form_position :: string
  form_interview_date :: datetime
  form_template_id :: int

record 'f score =
  sc_id :: int
  sc_question_id :: int
  sc_value :: 'f
  sc_comment :: "string option"
  sc_interviewer_id :: int
  sc_interview_form_id :: int
  sc_evaluation_id :: "int option"

record 'f evaluation =
  ev_id :: int
  ev_total_score :: 'f
  ev_passed :: bool
  ev_minimal_rate :: 'f
  ev_interview_form_id :: int

record feedback =
  fb_id :: int
  fb_text :: string
  fb_interview_form_id :: int

record predefined_phrase =
  ph_id :: int
  ph_text :: string
  ph_category :: "string option"
  ph_feedback_id :: "int option"

record 'f database =
  application_templates :: "application_template list"
  questions :: "'f question list"
  template_questions :: "(int \<times> int) list"
  interviewers :: "interviewer list"
  interview_forms :: "interview_form list"
  interviewer_forms :: "(int \<times> int) list"
  scores :: "'f score list"
  evaluations :: "'f evaluation list"
  feedbacks :: "feedback list"
  predefined_phrases :: "predefined_phrase list"

text \<open>
  \<open>template_questions\<close> holds pairs (template id, question id) and \<open>interviewer_forms\<close>
  pairs (interviewer id, form id), in the column order of models.py; both columns of each
  table form its primary key. A phrase points to its feedback through the nullable column
  \<open>feedback_id\<close> (models.py:230), and \<open>Feedback.phrases\<close> is the collection of the rows
  that point to the feedback (models.py:216).
\<close>

datatype exc =
    HTTPException int string
  | IntegrityError
  | JSONDecodeError
  | TransportError string
  | DataError

text \<open>
  \<open>HTTPException status detail\<close> is the exception the handlers raise themselves.
  \<open>IntegrityError\<close> is the database refusing a row at \<open>commit\<close>, \<open>JSONDecodeError\<close> is
  \<open>response.json()\<close> on a body that is not a JSON document, \<open>TransportError\<close> is the
  HTTP client failing before any response arrives, \<open>DataError\<close> is the database
  refusing a value of a query or of a row.
\<close>

definition status_of :: "exc \<Rightarrow> int option" where
  "status_of e = (case e of HTTPException s d \<Rightarrow> Some s | _ \<Rightarrow> None)"

subsection \<open>Queries and relationship collections\<close>

definition get_form :: "'f database \<Rightarrow> int \<Rightarrow> interview_form option" where
  \<comment> \<open>\<open>db.query(InterviewForm).filter(InterviewForm.id == interview_id).first()\<close>\<close>
  "get_form db interview_id = find (\<lambda>f. form_id f = interview_id) (interview_forms db)"

definition get_interviewer :: "'f database \<Rightarrow> int \<Rightarrow> interviewer option" where
  "get_interviewer db interviewer_id = find (\<lambda>i. iv_id i = interviewer_id) (interviewers db)"

definition get_template :: "'f database \<Rightarrow> int \<Rightarrow> application_template option" where
  "get_template db template_id = find (\<lambda>t. tpl_id t = template_id) (application_templates db)"

definition get_question :: "'f database \<Rightarrow> int \<Rightarrow> 'f question option" where
  "get_question db question_id = find (\<lambda>q. q_id q = question_id) (questions db)"

definition get_phrase :: "'f database \<Rightarrow> int \<Rightarrow> predefined_phrase option" where
  "get_phrase db phrase_id = find (\<lambda>p. ph_id p = phrase_id) (predefined_phrases db)"

definition get_feedback :: "'f database \<Rightarrow> int \<Rightarrow> feedback option" where
  \<comment> \<open>\<open>db.query(Feedback).filter(Feedback.interview_form_id == interview_id).first()\<close>\<close>
  "get_feedback db interview_id =
     find (\<lambda>f. fb_interview_form_id f = interview_id) (feedbacks db)"

definition get_evaluations :: "'f database \<Rightarrow> int \<Rightarrow> 'f evaluation list" where
  "get_evaluations db interview_id =
     filter (\<lambda>e. ev_interview_form_id e = interview_id) (evaluations db)"

definition joined_interviewers :: "'f database \<Rightarrow> int \<Rightarrow> interviewer list" where
  \<comment> \<open>the interviewers joined to a form through \<open>interviewer_forms\<close>\<close>
  "joined_interviewers db fid =
     List.map_filter (\<lambda>(i, f). if f = fid then get_interviewer db i else None)
       (interviewer_forms db)"

definition form_interviewers ::
  "(interviewer \<Rightarrow> nat) \<Rightarrow> 'f database \<Rightarrow> int \<Rightarrow> interviewer list" where
  \<comment> \<open>\<open>form.interviewers\<close>: the joined interviewers in the order the database returns them, by rising \<open>rank\<close>\<close>
  "form_interviewers rank db fid = sort_key rank (joined_interviewers db fid)"

text \<open>
  The relationship is loaded by a join that has no \<open>ORDER BY\<close> (models.py:155), and the
  association table has no column to order by: the order of the collection is the
  database's choice. The choice is the parameter \<open>rank\<close> of every handler that reads the
  collection; the rows come back by rising rank, and every order of the rows is the order
  of some rank.
\<close>

definition template_question_rows :: "'f database \<Rightarrow> int \<Rightarrow> 'f question list" where
  \<comment> \<open>\<open>template.questions\<close>: the questions joined through \<open>template_questions\<close>; the handlers read it for membership only\<close>
  "template_question_rows db tid =
     List.map_filter (\<lambda>(t, q). if t = tid then get_question db q else None)
       (template_questions db)"

definition feedback_phrases :: "'f database \<Rightarrow> int \<Rightarrow> predefined_phrase list" where
  \<comment> \<open>\<open>feedback.phrases\<close>: the phrases whose \<open>feedback_id\<close> is the feedback's id\<close>
  "feedback_phrases db fid =
     filter (\<lambda>p. ph_feedback_id p = Some fid) (predefined_phrases db)"

section \<open>The PeopleForce client and the sync endpoint (app/api/integrations.py)\<close>

record settings =
  PEOPLEFORCE_API_URL :: string
  PEOPLEFORCE_API_KEY :: "string option"

record request =
  req_method :: string
  req_url :: string
  req_headers :: "(string \<times> string) list"
  req_json :: "(string \<times> string) list"

datatype 'j outcome =
    Response int string "'j option"
  | TransportFailure string

text \<open>
  The remote service is a function from the request to what comes back.
  \<open>Response status_code text json\<close> is a response: its status code, its body as text, and
  the value \<open>response.json()\<close> returns, \<open>None\<close> when the body is not a JSON document and
  \<open>response.json()\<close> raises (the body of a 204 is empty, so there it is \<open>None\<close>).
  \<open>TransportFailure\<close> is a request that raised inside the HTTP client.
\<close>

definition client_headers :: "settings \<Rightarrow> (string \<times> string) list" where
  "client_headers st =
     [(''Authorization'', ''Bearer '' @ str_opt (PEOPLEFORCE_API_KEY st)),
      (''Content-Type'', ''application/json''),
      (''Accept'', ''application/json'')]"

definition notes_request :: "settings \<Rightarrow> string \<Rightarrow> string \<Rightarrow> request" where
  \<comment> \<open>integrations.py:57-61: the request \<open>client.patch(url, headers=..., json=payload)\<close> sends\<close>
  "notes_request st candidate_id notes =
     \<lparr> req_method = ''PATCH'',
       req_url = PEOPLEFORCE_API_URL st @ ''/api/v1/candidates/'' @ candidate_id,
       req_headers = client_headers st,
       req_json = [(''notes'', notes)] \<rparr>"

definition update_candidate_notes ::
  "settings \<Rightarrow> (request \<Rightarrow> 'j outcome) \<Rightarrow> string \<Rightarrow> string \<Rightarrow> exc + 'j" where
  "update_candidate_notes st remote candidate_id notes =
     (case remote (notes_request st candidate_id notes) of
        TransportFailure m \<Rightarrow> Inl (TransportError m)
      | Response status_code text json \<Rightarrow>
          if status_code \<notin> {200, 201, 204}
          then Inl (HTTPException status_code (msg_notes_error @ text))
          else (case json of None \<Rightarrow> Inl JSONDecodeError | Some body \<Rightarrow> Inr body))"

definition interviewer_line :: "interviewer \<Rightarrow> string" where
  \<comment> \<open>integrations.py:177\<close>
  "interviewer_line i = ''- '' @ iv_name i @ '' ('' @ str_opt (iv_position i) @ '')'' @ nl"

definition passed_text :: "'f evaluation \<Rightarrow> string" where
  \<comment> \<open>integrations.py:184\<close>
  "passed_text e = (if ev_passed e then lbl_passed else lbl_not_passed)"

definition evaluation_lines :: "('f \<Rightarrow> string) \<Rightarrow> 'f evaluation \<Rightarrow> string" where
  \<comment> \<open>integrations.py:185-186\<close>
  "evaluation_lines str_float e =
     lbl_total @ str_float (ev_total_score e) @ lbl_of @ str_float (ev_minimal_rate e)
       @ lbl_required
     @ lbl_result @ passed_text e @ nl @ nl"

definition phrase_line :: "predefined_phrase \<Rightarrow> string" where
  \<comment> \<open>integrations.py:196\<close>
  "phrase_line p = ''- '' @ ph_text p @ nl"

definition sync_notes ::
  "('f \<Rightarrow> string) \<Rightarrow> (interviewer \<Rightarrow> nat) \<Rightarrow> 'f database \<Rightarrow> interview_form \<Rightarrow> string"
  where
  \<comment> \<open>integrations.py:165-196: the text \<open>notes\<close> when the handler reaches the client call\<close>
  "sync_notes str_float rank db form =
     (let evals = get_evaluations db (form_id form);
          feedback = get_feedback db (form_id form);
          notes = lbl_title;
          notes = notes @ lbl_position @ form_position form @ nl;
          notes = notes @ lbl_date @ strftime_Ymd_HM (form_interview_date form) @ nl @ nl;
          notes = notes @ lbl_interviewers;
          notes = notes @ concat (map interviewer_line (form_interviewers rank db (form_id form)));
          notes = notes @ lbl_scores;
          notes = (if evals \<noteq> [] then notes @ concat (map (evaluation_lines str_float) evals)
                   else notes)
      in case feedback of
           None \<Rightarrow> notes
         | Some fb \<Rightarrow>
             (let notes = notes @ lbl_feedback;
                  notes = notes @ fb_text fb;
                  phrases = feedback_phrases db (fb_id fb)
              in if phrases \<noteq> []
                 then notes @ lbl_recommendations @ concat (map phrase_line phrases)
                 else notes))"

record 'f sync_run =
  sync_result :: "exc + (string \<times> string) list"
  sync_db :: "'f database"
  sync_sent :: "request list"

definition sync_interview_to_peopleforce ::
  "settings \<Rightarrow> ('f \<Rightarrow> string) \<Rightarrow> (exc \<Rightarrow> string) \<Rightarrow> (interviewer \<Rightarrow> nat)
     \<Rightarrow> (request \<Rightarrow> 'j outcome) \<Rightarrow> 'f database \<Rightarrow> int \<Rightarrow> 'f sync_run" where
  "sync_interview_to_peopleforce st str_float str_exc rank remote db interview_id =
     (case get_form db interview_id of
        None \<Rightarrow>
          \<lparr> sync_result = Inl (HTTPException 404 msg_form_not_found),
            sync_db = db, sync_sent = [] \<rparr>
      | Some form \<Rightarrow>
          (let notes = sync_notes str_float rank db form;
               sent = [notes_request st (form_candidate_id form) notes]
           in case update_candidate_notes st remote (form_candidate_id form) notes of
                Inr body \<Rightarrow>
                  \<lparr> sync_result = Inr [(''status'', ''success''), (''message'', msg_sync_success)],
                    sync_db = db, sync_sent = sent \<rparr>
              | Inl e \<Rightarrow>
                  \<lparr> sync_result = Inl (HTTPException 500 (msg_sync_error @ str_exc e)),
                    sync_db = db, sync_sent = sent \<rparr>))"

text \<open>
  A run of the endpoint is its result (the exception raised, or the JSON object returned),
  the database when the request-scoped session is closed (the handler queries only: it
  holds no \<open>add\<close> and no \<open>commit\<close>), and the requests sent to the remote service, in
  order. \<open>str_float\<close> is Python's printing of a float in an f-string and \<open>str_exc\<close> the
  \<open>str(e)\<close> of an exception; both belong to the language and its libraries.
\<close>

section \<open>Writing: what \<open>commit\<close> does with the changes of a handler\<close>

text \<open>
  A handler that writes is a function from the database to its result and the database
  the request leaves behind. The session is request-scoped and has \<open>autoflush=False\<close>
  (app/db/database.py): nothing reaches the database before \<open>db.commit()\<close>, and a
  handler that raises leaves the database as it found it. A commit that the database
  refuses raises and is rolled back as a whole.

  New rows get their id from the table's sequence; the model takes the successor of the
  largest id in the table, which, like the sequence's value, is an id no row has.

  The unit of work inserts one association row for each entry a many-to-many
  collection gained, in order (an object appended twice is two entries), and the
  composite primary key of the association table refuses a pair that the table holds
  already.
\<close>

type_synonym ('a, 'f) handled = "(exc + 'a) \<times> 'f database"

definition next_id :: "int list \<Rightarrow> int" where
  "next_id ids = fold max ids 0 + 1"

fun insert_rows :: "(int \<times> int) list \<Rightarrow> (int \<times> int) list \<Rightarrow> exc + (int \<times> int) list" where
  "insert_rows tbl [] = Inr tbl"
| "insert_rows tbl (r # rs) =
     (if r \<in> set tbl then Inl IntegrityError else insert_rows (tbl @ [r]) rs)"

definition set_feedback_ids ::
  "int \<Rightarrow> predefined_phrase list \<Rightarrow> predefined_phrase list \<Rightarrow> predefined_phrase list
     \<Rightarrow> predefined_phrase list" where
  \<comment> \<open>the flush of \<open>Feedback.phrases\<close>: a member of the collection points to the feedback, a row that left the collection points nowhere\<close>
  "set_feedback_ids fid original current tbl =
     map (\<lambda>p. if ph_id p \<in> set (map ph_id current) then p\<lparr>ph_feedback_id := Some fid\<rparr>
               else if ph_id p \<in> set (map ph_id original) then p\<lparr>ph_feedback_id := None\<rparr>
               else p) tbl"

section \<open>Interview forms (app/api/interviews.py)\<close>


record feedback_create =
  c_text :: string
  c_predefined_phrase_ids :: "int list"



definition utf8_length :: "string \<Rightarrow> nat" where
  \<comment> \<open>the number of characters of a text held as UTF-8 bytes: the bytes that do not continue a character\<close>
  "utf8_length s =
     length (filter (\<lambda>c. \<not> (128 \<le> (of_char c :: nat) \<and> (of_char c :: nat) < 192)) s)"

definition fits_String_100 :: "interview_form \<Rightarrow> bool" where
  \<comment> \<open>models.py:145-147: \<open>candidate_id\<close>, \<open>candidate_name\<close> and \<open>position\<close> are \<open>String(100)\<close>\<close>
  "fits_String_100 f =
     (utf8_length (form_candidate_id f) \<le> 100 \<and> utf8_length (form_candidate_name f) \<le> 100
      \<and> utf8_length (form_position f) \<le> 100)"

definition commit_form ::
  "'f database \<Rightarrow> interview_form \<Rightarrow> interviewer list \<Rightarrow> (interview_form, 'f) handled" where
  \<comment> \<open>\<open>db.add(db_form); db.commit()\<close>: the form's row, which the database refuses when a text is wider than its column, then one membership row for each interviewer of its collection\<close>
  "commit_form db db_form members =
     (if \<not> fits_String_100 db_form then (Inl DataError, db)
      else case insert_rows (interviewer_forms db)
                  (map (\<lambda>i. (iv_id i, form_id db_form)) members) of
             Inl e \<Rightarrow> (Inl e, db)
           | Inr links \<Rightarrow>
               (Inr db_form,
                db\<lparr> interview_forms := interview_forms db @ [db_form],
                    interviewer_forms := links \<rparr>))"


definition add_interviewer_to_form ::
  "(interviewer \<Rightarrow> nat) \<Rightarrow> 'f database \<Rightarrow> int \<Rightarrow> int \<Rightarrow> (interview_form, 'f) handled" where
  "add_interviewer_to_form rank db interview_id interviewer_id =
     (case get_form db interview_id of
        None \<Rightarrow> (Inl (HTTPException 404 msg_form_not_found), db)
      | Some form \<Rightarrow>
          (case get_interviewer db interviewer_id of
             None \<Rightarrow> (Inl (HTTPException 404 msg_interviewer_not_found), db)
           | Some interviewer \<Rightarrow>
               if interviewer \<in> set (form_interviewers rank db (form_id form))
               then (Inl (HTTPException 400 msg_interviewer_already_added), db)
               else (case insert_rows (interviewer_forms db)
                            [(iv_id interviewer, form_id form)] of
                       Inl e \<Rightarrow> (Inl e, db)
                     | Inr links \<Rightarrow> (Inr form, db\<lparr>interviewer_forms := links\<rparr>))))"

definition remove_interviewer_from_form ::
  "(interviewer \<Rightarrow> nat) \<Rightarrow> 'f database \<Rightarrow> int \<Rightarrow> int \<Rightarrow> (unit, 'f) handled" where
  "remove_interviewer_from_form rank db interview_id interviewer_id =
     (case get_form db interview_id of
        None \<Rightarrow> (Inl (HTTPException 404 msg_form_not_found), db)
      | Some form \<Rightarrow>
          (case get_interviewer db interviewer_id of
             None \<Rightarrow> (Inl (HTTPException 404 msg_interviewer_not_found), db)
           | Some interviewer \<Rightarrow>
               if interviewer \<notin> set (form_interviewers rank db (form_id form))
               then (Inl (HTTPException 404 msg_interviewer_not_member), db)
               else (Inr (),
                     db\<lparr>interviewer_forms :=
                          removeAll (iv_id interviewer, form_id form) (interviewer_forms db)\<rparr>)))"

fun append_phrases ::
  "'f database \<Rightarrow> predefined_phrase list \<Rightarrow> int list \<Rightarrow> predefined_phrase list" where
  \<comment> \<open>interviews.py:361-364: a phrase id that matches no row is passed over\<close>
  "append_phrases db acc [] = acc"
| "append_phrases db acc (phrase_id # ids) =
     (case get_phrase db phrase_id of
        None \<Rightarrow> append_phrases db acc ids
      | Some phrase \<Rightarrow> append_phrases db (acc @ [phrase]) ids)"

definition create_feedback ::
  "'f database \<Rightarrow> int \<Rightarrow> string \<Rightarrow> int list \<Rightarrow> (feedback, 'f) handled" where
  \<comment> \<open>interviews.py:355-369 and interview_service.py:208-223: a new feedback with its phrases, committed\<close>
  "create_feedback db interview_id text phrase_ids =
     (let db_feedback = \<lparr> fb_id = next_id (map fb_id (feedbacks db)), fb_text = text,
                           fb_interview_form_id = interview_id \<rparr>;
          phrases = append_phrases db [] phrase_ids
      in (Inr db_feedback,
          db\<lparr> feedbacks := feedbacks db @ [db_feedback],
              predefined_phrases :=
                set_feedback_ids (fb_id db_feedback) [] phrases (predefined_phrases db) \<rparr>))"

definition add_feedback ::
  "'f database \<Rightarrow> int \<Rightarrow> feedback_create \<Rightarrow> (feedback, 'f) handled" where
  "add_feedback db interview_id feedback =
     (case get_form db interview_id of
        None \<Rightarrow> (Inl (HTTPException 404 msg_form_not_found), db)
      | Some form \<Rightarrow>
          (case get_feedback db interview_id of
             Some existing \<Rightarrow> (Inl (HTTPException 400 msg_feedback_exists), db)
           | None \<Rightarrow>
               create_feedback db interview_id (c_text feedback)
                 (c_predefined_phrase_ids feedback)))"

section \<open>The interview service (app/services/interview_service.py)\<close>

definition get_interview_by_id :: "'f database \<Rightarrow> int \<Rightarrow> exc + interview_form" where
  "get_interview_by_id db interview_id =
     (case get_form db interview_id of
        None \<Rightarrow> Inl (HTTPException 404 msg_interview_not_found)
      | Some interview \<Rightarrow> Inr interview)"


definition InterviewService_add_feedback ::
  "'f database \<Rightarrow> int \<Rightarrow> feedback_create \<Rightarrow> (feedback, 'f) handled" where
  "InterviewService_add_feedback db interview_id feedback_data =
     (case get_interview_by_id db interview_id of
        Inl e \<Rightarrow> (Inl e, db)
      | Inr interview \<Rightarrow>
          (case get_feedback db interview_id of
             Some existing \<Rightarrow>
               (let updated = existing\<lparr>fb_text := c_text feedback_data\<rparr>;
                    phrases = append_phrases db [] (c_predefined_phrase_ids feedback_data)
                in (Inr updated,
                    db\<lparr> feedbacks :=
                          map (\<lambda>f. if fb_id f = fb_id existing
                                    then f\<lparr>fb_text := c_text feedback_data\<rparr> else f)
                            (feedbacks db),
                        predefined_phrases :=
                          set_feedback_ids (fb_id existing)
                            (feedback_phrases db (fb_id existing)) phrases
                            (predefined_phrases db) \<rparr>))
           | None \<Rightarrow>
               create_feedback db interview_id (c_text feedback_data)
                 (c_predefined_phrase_ids feedback_data)))"

definition truthy_int :: "int option \<Rightarrow> bool" where
  \<comment> \<open>Python's \<open>if v:\<close> on an \<open>Optional[int]\<close>\<close>
  "truthy_int v = (case v of None \<Rightarrow> False | Some i \<Rightarrow> i \<noteq> 0)"

definition truthy_str :: "string option \<Rightarrow> bool" where
  \<comment> \<open>Python's \<open>if v:\<close> on an \<open>Optional[str]\<close>\<close>
  "truthy_str v = (case v of None \<Rightarrow> False | Some s \<Rightarrow> s \<noteq> [])"

definition offset_limit :: "int \<Rightarrow> int \<Rightarrow> 'a list \<Rightarrow> exc + 'a list" where
  \<comment> \<open>\<open>query.offset(skip).limit(limit).all()\<close>; the database refuses a negative offset or limit\<close>
  "offset_limit skip limit rows =
     (if skip < 0 \<or> limit < 0 then Inl DataError
      else Inr (take (nat limit) (drop (nat skip) rows)))"

definition InterviewService_get_scores ::
  "'f database \<Rightarrow> int \<Rightarrow> int option \<Rightarrow> exc + 'f score list" where
  "InterviewService_get_scores db interview_id interviewer_id =
     (case get_interview_by_id db interview_id of
        Inl e \<Rightarrow> Inl e
      | Inr interview \<Rightarrow>
          (let query = filter (\<lambda>s. sc_interview_form_id s = interview_id) (scores db);
               query = (if truthy_int interviewer_id
                        then filter (\<lambda>s. Some (sc_interviewer_id s) = interviewer_id) query
                        else query)
           in Inr query))"

definition InterviewService_get_interviews ::
  "(string \<Rightarrow> string \<Rightarrow> bool) \<Rightarrow> 'f database \<Rightarrow> int \<Rightarrow> int \<Rightarrow> string option
     \<Rightarrow> string option \<Rightarrow> datetime option \<Rightarrow> datetime option \<Rightarrow> exc + interview_form list" where
  "InterviewService_get_interviews ilike db skip limit candidate_id position start_date end_date =
     (let query = interview_forms db;
          query = (if truthy_str candidate_id
                   then filter (\<lambda>f. Some (form_candidate_id f) = candidate_id) query
                   else query);
          query = (if truthy_str position
                   then filter (\<lambda>f. ilike (form_position f) (''%'' @ str_opt position @ ''%'')) query
                   else query);
          query = (case start_date of
                     Some d \<Rightarrow> filter (\<lambda>f. dt_le d (form_interview_date f)) query
                   | None \<Rightarrow> query);
          query = (case end_date of
                     Some d \<Rightarrow> filter (\<lambda>f. dt_le (form_interview_date f) d) query
                   | None \<Rightarrow> query)
      in offset_limit skip limit query)"

section \<open>The question service (app/services/question_service.py)\<close>

definition QuestionService_get_questions ::
  "(string \<Rightarrow> string \<Rightarrow> bool) \<Rightarrow> 'f database \<Rightarrow> int \<Rightarrow> int \<Rightarrow> int option \<Rightarrow> int option
     \<Rightarrow> int option \<Rightarrow> int option \<Rightarrow> string option \<Rightarrow> exc + 'f question list" where
  "QuestionService_get_questions ilike db skip limit unit_id difficulty_id level_id group_id
       text_search =
     (let query = questions db;
          query = (if truthy_int unit_id
                   then filter (\<lambda>q. q_unit_id q = unit_id) query else query);
          query = (if truthy_int difficulty_id
                   then filter (\<lambda>q. q_difficulty_id q = difficulty_id) query else query);
          query = (if truthy_int level_id
                   then filter (\<lambda>q. q_level_id q = level_id) query else query);
          query = (if truthy_int group_id
                   then filter (\<lambda>q. q_group_id q = group_id) query else query);
          query = (if truthy_str text_search
                   then filter (\<lambda>q. ilike (q_text q) (''%'' @ str_opt text_search @ ''%'')) query
                   else query)
      in offset_limit skip limit query)"

text \<open>
  \<open>ilike\<close> is the database's case-insensitive pattern match of a column against a
  pattern, a parameter of the two listings; the pattern is the argument between
  two percent signs, printed as the f-string of the source prints it.
\<close>

section \<open>The template service (app/services/template_service.py)\<close>

definition get_template_by_id :: "'f database \<Rightarrow> int \<Rightarrow> exc + application_template" where
  "get_template_by_id db template_id =
     (case get_template db template_id of
        None \<Rightarrow> Inl (HTTPException 404 msg_template_not_found)
      | Some template \<Rightarrow> Inr template)"

fun append_questions ::
  "'f database \<Rightarrow> 'f question list \<Rightarrow> int list \<Rightarrow> exc + 'f question list" where
  \<comment> \<open>template_service.py:83-87: the appended questions, in order; no test of membership\<close>
  "append_questions db acc [] = Inr acc"
| "append_questions db acc (question_id # ids) =
     (case get_question db question_id of
        None \<Rightarrow>
          Inl (HTTPException 404
                 (msg_question_with_id @ str_int question_id @ msg_not_found_suffix))
      | Some question \<Rightarrow> append_questions db (acc @ [question]) ids)"

definition TemplateService_add_questions_to_template ::
  "bool \<Rightarrow> 'f database \<Rightarrow> int \<Rightarrow> int list \<Rightarrow> (application_template, 'f) handled" where
  "TemplateService_add_questions_to_template reinsert db template_id question_ids =
     (case get_template_by_id db template_id of
        Inl e \<Rightarrow> (Inl e, db)
      | Inr db_template \<Rightarrow>
          (let loaded = template_question_rows db (tpl_id db_template)
           in case append_questions db [] question_ids of
                Inl e \<Rightarrow> (Inl e, db)
              | Inr appended \<Rightarrow>
                  (let gained = filter (\<lambda>q. reinsert \<or> q \<notin> set loaded) appended
                   in case insert_rows (template_questions db)
                             (map (\<lambda>q. (tpl_id db_template, q_id q)) gained) of
                        Inl e \<Rightarrow> (Inl e, db)
                      | Inr links \<Rightarrow> (Inr db_template, db\<lparr>template_questions := links\<rparr>))))"

text \<open>
  At the commit the unit of work compares the collection with the rows it loaded: a
  question appended that was not loaded is a gained member and gets its association row.
  For a question appended although it was loaded already, the collection's own history
  shows no change; whether an association row is written for it all the same (through
  the pending change of the question's own, unloaded, \<open>templates\<close> collection) depends on
  the version of the object-relational mapper, which the repository does not fix. The
  parameter \<open>reinsert\<close> covers both: \<open>False\<close> writes nothing for such a question,
  \<open>True\<close> writes the row, which the primary key then refuses.
\<close>

definition TemplateService_remove_question_from_template ::
  "'f database \<Rightarrow> int \<Rightarrow> int \<Rightarrow> (bool, 'f) handled" where
  "TemplateService_remove_question_from_template db template_id question_id =
     (case get_template_by_id db template_id of
        Inl e \<Rightarrow> (Inl e, db)
      | Inr db_template \<Rightarrow>
          (case get_question db question_id of
             None \<Rightarrow>
               (Inl (HTTPException 404
                       (msg_question_with_id @ str_int question_id @ msg_not_found_suffix)),
                db)
           | Some question \<Rightarrow>
               if question \<notin> set (template_question_rows db (tpl_id db_template))
               then (Inl (HTTPException 404
                            (msg_question_with_id @ str_int question_id
                               @ msg_not_in_template_suffix)), db)
               else (Inr True,
                     db\<lparr>template_questions :=
                          removeAll (tpl_id db_template, q_id question)
                            (template_questions db)\<rparr>)))"

section \<open>Properties to state: order of parts, integrity of foreign keys\<close>

inductive in_order :: "string list \<Rightarrow> string \<Rightarrow> bool" where
  in_order_Nil: "in_order [] s"
| in_order_Cons: "in_order ps s \<Longrightarrow> in_order (p # ps) (pre @ p @ s)"

text \<open>
  \<open>in_order ps s\<close>: the texts \<open>ps\<close> occur in \<open>s\<close> one after the other, without overlap,
  with any text before, between and after them.
\<close>

fun rest_after :: "string \<Rightarrow> string \<Rightarrow> string option" where
  "rest_after p [] = (if p = [] then Some [] else None)"
| "rest_after p (c # s) =
     (if prefix p (c # s) then Some (drop (length p) (c # s)) else rest_after p s)"

fun in_order_exec :: "string list \<Rightarrow> string \<Rightarrow> bool" where
  "in_order_exec [] s = True"
| "in_order_exec (p # ps) s =
     (case rest_after p s of None \<Rightarrow> False | Some r \<Rightarrow> in_order_exec ps r)"

text \<open>
  \<open>rest_after p s\<close> is what follows the first occurrence of \<open>p\<close> in \<open>s\<close>, and
  \<open>in_order_exec\<close> looks for each part after the first occurrence of the part before: a
  test of \<open>in_order\<close> that can be run.
\<close>

definition evaluation_parts :: "('f \<Rightarrow> string) \<Rightarrow> 'f evaluation \<Rightarrow> string list" where
  "evaluation_parts str_float e =
     [str_float (ev_total_score e), str_float (ev_minimal_rate e),
      if ev_passed e then lbl_passed else lbl_not_passed]"

definition notes_parts ::
  "('f \<Rightarrow> string) \<Rightarrow> (interviewer \<Rightarrow> nat) \<Rightarrow> 'f database \<Rightarrow> interview_form \<Rightarrow> feedback
     \<Rightarrow> string list" where
  \<comment> \<open>what the notes of a form with a feedback have to show, in order\<close>
  "notes_parts str_float rank db form fb =
     [lbl_title, form_position form, strftime_Ymd_HM (form_interview_date form)]
     @ map interviewer_line (form_interviewers rank db (form_id form))
     @ concat (map (evaluation_parts str_float) (get_evaluations db (form_id form)))
     @ [fb_text fb]
     @ map phrase_line (feedback_phrases db (fb_id fb))"

definition iso_minutes :: "datetime \<Rightarrow> string" where
  \<comment> \<open>a timestamp written YYYY-MM-DD HH:MM, every field zero-padded to its width\<close>
  "iso_minutes d =
     zfill 4 (str_nat (dt_year d)) @ ''-'' @ zfill 2 (str_nat (dt_month d)) @ ''-''
     @ zfill 2 (str_nat (dt_day d)) @ '' '' @ zfill 2 (str_nat (dt_hour d)) @ '':''
     @ zfill 2 (str_nat (dt_minute d))"





definition existing_phrase_ids :: "'f database \<Rightarrow> int list \<Rightarrow> int set" where
  "existing_phrase_ids db ids = {i \<in> set ids. get_phrase db i \<noteq> None}"

subsection \<open>A small database to run the handlers on\<close>

text \<open>
  Floats are held as the text Python prints for them, so that the printing function of
  the examples is the identity.
\<close>

definition example_date :: datetime where
  "example_date = \<lparr> dt_year = 2024, dt_month = 3, dt_day = 7, dt_hour = 9, dt_minute = 5,
                      dt_second = 0 \<rparr>"

definition example_template :: application_template where
  "example_template = \<lparr> tpl_id = 1, tpl_name = ''Backend'', tpl_description = None,
      tpl_position = ''Backend Engineer'' \<rparr>"

definition example_form :: interview_form where
  "example_form = \<lparr> form_id = 1, form_candidate_id = ''cand-42'',
      form_candidate_name = ''Sam Smith'', form_position = ''Backend Engineer'',
      form_interview_date = example_date, form_template_id = 1 \<rparr>"

definition second_form :: interview_form where
  "second_form = \<lparr> form_id = 2, form_candidate_id = ''cand-43'',
      form_candidate_name = ''Kim Lee'', form_position = ''Backend Engineer'',
      form_interview_date = example_date, form_template_id = 1 \<rparr>"

definition example_interviewer :: interviewer where
  "example_interviewer = \<lparr> iv_id = 1, iv_name = ''Jane Doe'', iv_email = ''jane@example.org'',
      iv_position = Some ''Senior Engineer'' \<rparr>"

definition second_interviewer :: interviewer where
  "second_interviewer = \<lparr> iv_id = 2, iv_name = ''Ann Roe'', iv_email = ''ann@example.org'',
      iv_position = None \<rparr>"

definition example_feedback :: feedback where
  "example_feedback = \<lparr> fb_id = 1, fb_text = ''Strong candidate'', fb_interview_form_id = 1 \<rparr>"

definition example_phrase :: predefined_phrase where
  "example_phrase = \<lparr> ph_id = 1, ph_text = ''Clear communicator'', ph_category = None,
      ph_feedback_id = Some 1 \<rparr>"

definition second_phrase :: predefined_phrase where
  "second_phrase = \<lparr> ph_id = 2, ph_text = ''Knows the stack'', ph_category = Some ''positive'',
      ph_feedback_id = None \<rparr>"

definition example_question :: "string question" where
  "example_question = \<lparr> q_id = 5, q_text = ''What is a monad?'', q_weight = ''1.0'',
      q_docs_reference = None, q_priority = 1, q_unit_id = Some 2, q_difficulty_id = None,
      q_level_id = None, q_group_id = None \<rparr>"

definition second_question :: "string question" where
  "second_question = \<lparr> q_id = 6, q_text = ''What is a functor?'', q_weight = ''2.0'',
      q_docs_reference = None, q_priority = 1, q_unit_id = None, q_difficulty_id = None,
      q_level_id = None, q_group_id = None \<rparr>"

definition example_score :: "string score" where
  "example_score = \<lparr> sc_id = 1, sc_question_id = 5, sc_value = ''4.0'', sc_comment = None,
      sc_interviewer_id = 1, sc_interview_form_id = 1, sc_evaluation_id = None \<rparr>"

definition example_evaluation :: "string evaluation" where
  "example_evaluation = \<lparr> ev_id = 1, ev_total_score = ''8.5'', ev_passed = True,
      ev_minimal_rate = ''7.0'', ev_interview_form_id = 1 \<rparr>"

definition example_db :: "string database" where
  "example_db =
     \<lparr> application_templates = [example_template],
       questions = [example_question, second_question],
       template_questions = [(1, 5)],
       interviewers = [example_interviewer, second_interviewer],
       interview_forms = [example_form, second_form],
       interviewer_forms = [(1, 1)],
       scores = [example_score],
       evaluations = [example_evaluation],
       feedbacks = [example_feedback],
       predefined_phrases = [example_phrase, second_phrase] \<rparr>"

definition by_id :: "interviewer \<Rightarrow> nat" where
  \<comment> \<open>a database that returns the joined interviewers by rising id\<close>
  "by_id i = nat (iv_id i)"

definition early_date :: datetime where
  "early_date = \<lparr> dt_year = 999, dt_month = 1, dt_day = 2, dt_hour = 3, dt_minute = 4,
                    dt_second = 0 \<rparr>"

definition early_form :: interview_form where
  "early_form = example_form\<lparr>form_interview_date := early_date\<rparr>"

definition early_db :: "string database" where
  \<comment> \<open>form 1 is dated in the year 999, and interviewer 2 joined it before interviewer 1 did\<close>
  "early_db = example_db\<lparr> interview_forms := [early_form, second_form],
                          interviewer_forms := [(2, 1), (1, 1)] \<rparr>"

definition example_settings :: settings where
  "example_settings = \<lparr> PEOPLEFORCE_API_URL = ''https://api.peopleforce.io'',
      PEOPLEFORCE_API_KEY = Some ''key'' \<rparr>"

definition example_str_exc :: "exc \<Rightarrow> string" where
  "example_str_exc e = (case e of HTTPException s d \<Rightarrow> str_int s @ '': '' @ d | _ \<Rightarrow> ''error'')"


definition example_feedback_create :: "int list \<Rightarrow> feedback_create" where
  "example_feedback_create ids = \<lparr> c_text = ''Good'', c_predefined_phrase_ids = ids \<rparr>"


section \<open>Facts about the example database\<close>

lemma get_form_example: "get_form example_db 1 = Some example_form"
  by (simp add: get_form_def example_db_def example_form_def)

lemma get_form_second: "get_form example_db 2 = Some second_form"
  by (simp add: get_form_def example_db_def example_form_def second_form_def)

lemma get_form_missing: "get_form example_db 7 = None"
  by (simp add: get_form_def example_db_def example_form_def second_form_def)

lemma get_feedback_example: "get_feedback example_db 1 = Some example_feedback"
  by (simp add: get_feedback_def example_db_def example_feedback_def)

lemma get_feedback_second: "get_feedback example_db 2 = None"
  by (simp add: get_feedback_def example_db_def example_feedback_def)

lemma get_template_example: "get_template example_db 1 = Some example_template"
  by (simp add: get_template_def example_db_def example_template_def)

lemma get_interviewer_example:
  "get_interviewer example_db 1 = Some example_interviewer"
  "get_interviewer example_db 2 = Some second_interviewer"
  "get_interviewer example_db 3 = None"
  by (simp_all add: get_interviewer_def example_db_def example_interviewer_def
      second_interviewer_def)

lemma get_question_example:
  "get_question example_db 5 = Some example_question"
  "get_question example_db 6 = Some second_question"
  by (simp_all add: get_question_def example_db_def example_question_def second_question_def)

lemma get_phrase_example:
  "get_phrase example_db 1 = Some example_phrase"
  "get_phrase example_db 2 = Some second_phrase"
  "get_phrase example_db 9 = None"
  by (simp_all add: get_phrase_def example_db_def example_phrase_def second_phrase_def)

lemma example_links:
  "interviewer_forms example_db = [(1, 1)]"
  "template_questions example_db = [(1, 5)]"
  by (simp_all add: example_db_def)

lemma form_interviewers_example: "form_interviewers rank example_db 1 = [example_interviewer]"
  by (simp add: form_interviewers_def joined_interviewers_def List.map_filter_def example_links
      get_interviewer_example)

lemma template_question_rows_example:
  "template_question_rows example_db 1 = [example_question]"
  by (simp add: template_question_rows_def List.map_filter_def example_links
      get_question_example)

lemma feedback_phrases_example: "feedback_phrases example_db 1 = [example_phrase]"
  by (simp add: feedback_phrases_def example_db_def example_phrase_def second_phrase_def)

lemma get_evaluations_example: "get_evaluations example_db 1 = [example_evaluation]"
  by (simp add: get_evaluations_def example_db_def example_evaluation_def)

lemma strftime_example: "strftime_Ymd_HM example_date = ''2024-03-07 09:05''"
  by code_simp

lemma iso_minutes_example: "iso_minutes example_date = ''2024-03-07 09:05''"
  by code_simp


section \<open>The notes of the sync endpoint\<close>

lemma in_order_prefix: "in_order ps s \<Longrightarrow> in_order ps (pre @ s)"
proof (induction rule: in_order.induct)
  case (in_order_Nil s)
  show ?case by (rule in_order.in_order_Nil)
next
  case (in_order_Cons ps s p pre')
  have "in_order (p # ps) ((pre @ pre') @ p @ s)"
    using in_order_Cons.hyps by (rule in_order.in_order_Cons)
  then show ?case by simp
qed

lemma in_order_append:
  "in_order ps s \<Longrightarrow> in_order qs t \<Longrightarrow> in_order (ps @ qs) (s @ t)"
proof (induction rule: in_order.induct)
  case (in_order_Nil s)
  then show ?case by (simp add: in_order_prefix)
next
  case (in_order_Cons ps s p pre)
  then have "in_order (p # (ps @ qs)) (pre @ p @ (s @ t))"
    by (intro in_order.in_order_Cons) simp
  then show ?case by simp
qed

lemma in_order_single: "in_order [p] (a @ p @ b)"
  by (intro in_order.intros)

lemma in_order_self: "in_order [p] p"
  using in_order_single [of p "[]" "[]"] by simp

lemma in_order_concat:
  "(\<And>x. x \<in> set xs \<Longrightarrow> in_order (g x) (f x)) \<Longrightarrow>
     in_order (concat (map g xs)) (concat (map f xs))"
proof (induction xs)
  case Nil
  show ?case by (simp add: in_order_Nil)
next
  case (Cons x xs)
  then show ?case by (simp add: in_order_append)
qed

lemma in_order_lines: "in_order xs (concat xs)"
  using in_order_concat [of xs "\<lambda>x. [x]" "\<lambda>x. x"] by (simp add: in_order_self)

lemma in_order_evaluation_lines:
  "in_order (evaluation_parts str_float e) (evaluation_lines str_float e)"
proof -
  have "in_order
          ([str_float (ev_total_score e)] @ [str_float (ev_minimal_rate e)] @ [passed_text e])
          ((lbl_total @ str_float (ev_total_score e) @ [])
           @ (lbl_of @ str_float (ev_minimal_rate e) @ [])
           @ ((lbl_required @ lbl_result) @ passed_text e @ (nl @ nl)))"
    by (intro in_order_append in_order_single)
  then show ?thesis
    by (simp add: evaluation_parts_def evaluation_lines_def passed_text_def)
qed

lemma sync_notes_with_feedback:
  assumes "get_feedback db (form_id form) = Some fb"
  shows "sync_notes str_float rank db form =
           ([] @ lbl_title @ [])
           @ (lbl_position @ form_position form @ nl)
           @ (lbl_date @ strftime_Ymd_HM (form_interview_date form) @ nl @ nl)
           @ (lbl_interviewers
                @ concat (map interviewer_line (form_interviewers rank db (form_id form))))
           @ (lbl_scores
                @ concat (map (evaluation_lines str_float) (get_evaluations db (form_id form))))
           @ (lbl_feedback @ fb_text fb @ [])
           @ ((if feedback_phrases db (fb_id fb) = [] then [] else lbl_recommendations)
                @ concat (map phrase_line (feedback_phrases db (fb_id fb))))"
  using assms by (simp add: sync_notes_def Let_def)

lemma in_order_sync_notes:
  assumes "get_feedback db (form_id form) = Some fb"
  shows "in_order (notes_parts str_float rank db form fb) (sync_notes str_float rank db form)"
proof -
  have "in_order
          ([lbl_title] @ [form_position form] @ [strftime_Ymd_HM (form_interview_date form)]
           @ map (\<lambda>l. l) (map interviewer_line (form_interviewers rank db (form_id form)))
           @ concat (map (evaluation_parts str_float) (get_evaluations db (form_id form)))
           @ [fb_text fb]
           @ map (\<lambda>l. l) (map phrase_line (feedback_phrases db (fb_id fb))))
          (sync_notes str_float rank db form)"
    unfolding sync_notes_with_feedback [OF assms] map_ident
    by (intro in_order_append in_order_single in_order_self in_order_prefix in_order_lines
          in_order_concat in_order_evaluation_lines)
  then show ?thesis by (simp add: notes_parts_def)
qed

lemma get_form_id: "get_form db interview_id = Some form \<Longrightarrow> form_id form = interview_id"
  by (auto simp: get_form_def find_Some_iff)

lemma sync_sent_found:
  assumes "get_form db interview_id = Some form"
  shows "sync_sent (sync_interview_to_peopleforce st str_float str_exc rank remote db interview_id)
           = [notes_request st (form_candidate_id form) (sync_notes str_float rank db form)]"
  using assms by (simp add: sync_interview_to_peopleforce_def Let_def split: sum.split)

lemma str_nat_four_digits: "1000 \<le> n \<Longrightarrow> 4 \<le> length (str_nat n)"
proof -
  assume n: "1000 \<le> n"
  have "str_nat n = str_nat (n div 10) @ [digit_char n]"
    using n by (subst str_nat.simps) simp
  moreover have "str_nat (n div 10) = str_nat (n div 10 div 10) @ [digit_char (n div 10)]"
    using n by (subst str_nat.simps) simp
  moreover have "str_nat (n div 10 div 10)
                   = str_nat (n div 10 div 10 div 10) @ [digit_char (n div 10 div 10)]"
    using n by (subst str_nat.simps) simp
  moreover have "1 \<le> length (str_nat (n div 10 div 10 div 10))"
    by (subst str_nat.simps) simp
  ultimately show ?thesis by simp
qed

lemma strftime_is_iso_minutes:
  "1000 \<le> dt_year d \<Longrightarrow> strftime_Ymd_HM d = iso_minutes d"
  using str_nat_four_digits [of "dt_year d"]
  by (simp add: strftime_Ymd_HM_def iso_minutes_def zfill_def)

lemma rest_after_sound: "rest_after p s = Some r \<Longrightarrow> \<exists>a. s = a @ p @ r"
proof (induction s)
  case Nil
  then show ?case by (simp split: if_splits)
next
  case (Cons c s)
  show ?case
  proof (cases "prefix p (c # s)")
    case True
    then have "c # s = [] @ p @ r"
      using Cons.prems by (auto elim!: prefixE)
    then show ?thesis by blast
  next
    case False
    then obtain a where "s = a @ p @ r" using Cons by auto
    then have "c # s = (c # a) @ p @ r" by simp
    then show ?thesis by blast
  qed
qed

lemma rest_after_complete: "\<exists>r. rest_after p (a @ p @ b) = Some r \<and> suffix b r"
proof (induction a)
  case Nil
  show ?case
  proof (cases "p @ b")
    case Nil
    then show ?thesis by simp
  next
    case (Cons c t)
    have "prefix p (c # t)" unfolding Cons [symmetric] by simp
    moreover have "drop (length p) (c # t) = b" unfolding Cons [symmetric] by simp
    ultimately show ?thesis using Cons by simp
  qed
next
  case (Cons c a)
  show ?case
  proof (cases "prefix p (c # a @ p @ b)")
    case True
    have "suffix b (c # a @ p @ b)"
      by (rule suffixI [of _ "c # a @ p"]) simp
    moreover have "suffix (drop (length p) (c # a @ p @ b)) (c # a @ p @ b)"
      by (rule suffix_drop)
    moreover have "length b \<le> length (drop (length p) (c # a @ p @ b))"
      by simp
    ultimately have "suffix b (drop (length p) (c # a @ p @ b))"
      by (rule suffix_length_suffix)
    then show ?thesis using True by simp
  next
    case False
    then show ?thesis using Cons by simp
  qed
qed

lemma in_order_exec_complete: "in_order ps s \<Longrightarrow> in_order_exec ps (x @ s)"
proof (induction arbitrary: x rule: in_order.induct)
  case (in_order_Nil s)
  show ?case by simp
next
  case (in_order_Cons ps s p pre)
  obtain r where r: "rest_after p ((x @ pre) @ p @ s) = Some r" "suffix s r"
    using rest_after_complete by blast
  then obtain y where "r = y @ s" by (auto elim: suffixE)
  then have "in_order_exec ps r" using in_order_Cons.IH by simp
  then show ?case using r(1) by simp
qed

lemma in_order_exec_sound: "in_order_exec ps s \<Longrightarrow> in_order ps s"
proof (induction ps arbitrary: s)
  case Nil
  show ?case by (rule in_order.in_order_Nil)
next
  case (Cons p ps)
  then obtain r where r: "rest_after p s = Some r" "in_order_exec ps r"
    by (auto split: option.splits)
  then obtain a where "s = a @ p @ r" using rest_after_sound by blast
  then show ?case using Cons.IH [OF r(2)] by (auto intro: in_order.in_order_Cons)
qed

lemma in_order_iff_exec: "in_order ps s \<longleftrightarrow> in_order_exec ps s"
  using in_order_exec_complete [of ps s "[]"] in_order_exec_sound by auto

text \<open>
  Claim C1, as amended. For a form with a feedback, the sync endpoint sends one request,
  whose JSON body carries under \<open>notes\<close> a text in which there occur, in this order: the
  heading, the position of the form, its interview date as \<open>strftime\<close> prints it (which is
  YYYY-MM-DD HH:MM from the year 1000 on), one line \<open>- name (position)\<close> for each
  interviewer of the form in the order in which the database returns the form's
  interviewers, for each evaluation its total score, its minimal rate and the label of its
  \<open>passed\<close> flag, the text of the feedback, and one line \<open>- text\<close> for each phrase
  attached to the feedback in stored order.
\<close>

theorem sync_sends_notes_in_order:
  assumes "get_form db interview_id = Some form"
    and "get_feedback db interview_id = Some fb"
  shows "sync_sent (sync_interview_to_peopleforce st str_float str_exc rank remote db interview_id)
           = [notes_request st (form_candidate_id form) (sync_notes str_float rank db form)]
         \<and> req_json (notes_request st (form_candidate_id form)
                       (sync_notes str_float rank db form))
           = [(''notes'', sync_notes str_float rank db form)]
         \<and> in_order (notes_parts str_float rank db form fb) (sync_notes str_float rank db form)
         \<and> (1000 \<le> dt_year (form_interview_date form) \<longrightarrow>
              strftime_Ymd_HM (form_interview_date form)
                = iso_minutes (form_interview_date form))"
proof -
  have "in_order (notes_parts str_float rank db form fb) (sync_notes str_float rank db form)"
    using assms(2) get_form_id [OF assms(1)] by (intro in_order_sync_notes) simp
  then show ?thesis
    using sync_sent_found [OF assms(1)]
    by (simp add: notes_request_def strftime_is_iso_minutes)
qed

lemma notes_parts_example:
  "notes_parts (\<lambda>s. s) by_id example_db example_form example_feedback =
     [lbl_title, ''Backend Engineer'', ''2024-03-07 09:05'',
      ''- Jane Doe (Senior Engineer)'' @ nl, ''8.5'', ''7.0'', lbl_passed,
      ''Strong candidate'', ''- Clear communicator'' @ nl]"
proof -
  have "form_id example_form = 1" "fb_id example_feedback = 1"
    by (simp_all add: example_form_def example_feedback_def)
  then show ?thesis
    by (simp add: notes_parts_def form_interviewers_example get_evaluations_example
        feedback_phrases_example)
       (simp add: strftime_example evaluation_parts_def interviewer_line_def phrase_line_def
        str_opt_def example_form_def example_interviewer_def example_feedback_def
        example_phrase_def example_evaluation_def)
qed

theorem sync_sends_notes_in_order_witness:
  "get_form example_db 1 = Some example_form
   \<and> get_feedback example_db 1 = Some example_feedback
   \<and> 1000 \<le> dt_year (form_interview_date example_form)
   \<and> iso_minutes (form_interview_date example_form) = ''2024-03-07 09:05''
   \<and> in_order
       [lbl_title, ''Backend Engineer'', ''2024-03-07 09:05'',
        ''- Jane Doe (Senior Engineer)'' @ nl, ''8.5'', ''7.0'', lbl_passed,
        ''Strong candidate'', ''- Clear communicator'' @ nl]
       (sync_notes (\<lambda>s. s) by_id example_db example_form)"
proof -
  have "form_interview_date example_form = example_date" "dt_year example_date = 2024"
    by (simp_all add: example_form_def example_date_def)
  then show ?thesis
    using sync_sends_notes_in_order [OF get_form_example get_feedback_example,
        where st = example_settings and str_float = "\<lambda>s. s" and str_exc = example_str_exc
        and rank = by_id and remote = "\<lambda>r. Response 200 ''{}'' (Some ''{}'')"]
    by (simp add: notes_parts_example get_form_example get_feedback_example strftime_example
        iso_minutes_example)
qed

lemma early_db_facts:
  "get_form early_db 1 = Some early_form"
  "interviewer_forms early_db = [(2, 1), (1, 1)]"
  "form_interview_date early_form = early_date"
  "form_candidate_id early_form = ''cand-42''"
  "get_feedback early_db 1 = Some example_feedback"
  "get_evaluations early_db 1 = [example_evaluation]"
  "feedback_phrases early_db 1 = [example_phrase]"
  by (simp_all add: get_form_def early_db_def early_form_def example_form_def
      get_feedback_def get_evaluations_def feedback_phrases_def
      get_feedback_example [unfolded get_feedback_def]
      get_evaluations_example [unfolded get_evaluations_def]
      feedback_phrases_example [unfolded feedback_phrases_def])

lemma early_notes_checked:
  "iso_minutes early_date = ''0999-01-02 03:04''"
  "\<not> in_order_exec [''0999-01-02 03:04'']
       (sync_notes (\<lambda>s. s) by_id early_db early_form)"
  "in_order_exec [''999-01-02 03:04'']
       (sync_notes (\<lambda>s. s) by_id early_db early_form)"
  "\<not> in_order_exec [interviewer_line second_interviewer, interviewer_line example_interviewer]
       (sync_notes (\<lambda>s. s) by_id early_db early_form)"
  "in_order_exec [interviewer_line example_interviewer, interviewer_line second_interviewer]
       (sync_notes (\<lambda>s. s) by_id early_db early_form)"
  by code_simp+

text \<open>
  The claim as stated fails on form 1 of a database in which the form is dated
  0999-01-02 03:04, interviewer 2 (Ann Roe) joined the form before interviewer 1
  (Jane Doe), and the join returns the interviewers by rising id. The notes sent do not
  hold the date written YYYY-MM-DD HH:MM, they hold 999-01-02 03:04; and the line of
  Jane Doe comes before the line of Ann Roe, against the order of the membership rows.
\<close>

theorem sync_notes_year_and_join_order:
  "get_form early_db 1 = Some early_form
   \<and> get_feedback early_db 1 = Some example_feedback
   \<and> get_evaluations early_db 1 = [example_evaluation]
   \<and> feedback_phrases early_db 1 = [example_phrase]
   \<and> interviewer_forms early_db = [(2, 1), (1, 1)]
   \<and> sync_sent (sync_interview_to_peopleforce example_settings (\<lambda>s. s) example_str_exc by_id
                   (\<lambda>r. Response 200 ''{}'' (Some ''{}'')) early_db 1)
       = [notes_request example_settings ''cand-42''
            (sync_notes (\<lambda>s. s) by_id early_db early_form)]
   \<and> iso_minutes (form_interview_date early_form) = ''0999-01-02 03:04''
   \<and> \<not> in_order [''0999-01-02 03:04''] (sync_notes (\<lambda>s. s) by_id early_db early_form)
   \<and> in_order [''999-01-02 03:04''] (sync_notes (\<lambda>s. s) by_id early_db early_form)
   \<and> \<not> in_order [interviewer_line second_interviewer, interviewer_line example_interviewer]
         (sync_notes (\<lambda>s. s) by_id early_db early_form)
   \<and> in_order [interviewer_line example_interviewer, interviewer_line second_interviewer]
         (sync_notes (\<lambda>s. s) by_id early_db early_form)"
  using sync_sent_found [OF early_db_facts(1), of example_settings "\<lambda>s. s" example_str_exc
      by_id "\<lambda>r. Response 200 ''{}'' (Some ''{}'')"]
  by (simp add: early_db_facts early_notes_checked in_order_iff_exec del: in_order_exec.simps)

section \<open>The client call and the failures of the sync endpoint\<close>

lemma notes_request_shape:
  "req_method (notes_request st candidate_id notes) = ''PATCH''"
  "req_json (notes_request st candidate_id notes) = [(''notes'', notes)]"
  "req_url (notes_request st candidate_id notes)
     = PEOPLEFORCE_API_URL st @ ''/api/v1/candidates/'' @ candidate_id"
  by (simp_all add: notes_request_def)

lemma update_candidate_notes_upstream_error:
  assumes "remote (notes_request st candidate_id notes) = Response status_code text json"
    and "status_code \<notin> {200, 201, 204}"
  shows "update_candidate_notes st remote candidate_id notes
           = Inl (HTTPException status_code (msg_notes_error @ text))"
  using assms by (simp add: update_candidate_notes_def)

lemma update_candidate_notes_json_body:
  assumes "remote (notes_request st candidate_id notes) = Response status_code text (Some body)"
    and "status_code \<in> {200, 201, 204}"
  shows "update_candidate_notes st remote candidate_id notes = Inr body"
  using assms by (auto simp: update_candidate_notes_def)

text \<open>
  Claim C7. The claim promises the response body for the statuses 200, 201 and 204. The
  handler lets 204 pass its status test and then reads \<open>response.json()\<close>; a 204 has no
  body, so the call fails with a decoding error instead of returning.
\<close>

theorem update_candidate_notes_no_content:
  "update_candidate_notes st (\<lambda>r. Response 204 [] None) candidate_id notes
     = Inl JSONDecodeError"
  by (simp add: update_candidate_notes_def)

text \<open>
  Claim C2. Whatever exception the notes update ends with, the endpoint raises an
  \<open>HTTPException\<close> with status 500 whose detail is the fixed prefix followed by the text of
  that exception; the status of the cause is not passed on. In every run, failed or not,
  the database is the one the run started from.
\<close>

theorem sync_failure_is_500:
  "sync_db (sync_interview_to_peopleforce st str_float str_exc rank remote db interview_id) = db
   \<and> (get_form db interview_id = Some form \<longrightarrow>
        update_candidate_notes st remote (form_candidate_id form) (sync_notes str_float rank db form)
          = Inl e \<longrightarrow>
        sync_result (sync_interview_to_peopleforce st str_float str_exc rank remote db interview_id)
          = Inl (HTTPException 500 (msg_sync_error @ str_exc e))
        \<and> status_of (HTTPException 500 (msg_sync_error @ str_exc e)) = Some 500)"
  by (simp add: sync_interview_to_peopleforce_def Let_def status_of_def
      split: option.split sum.split)

lemma update_candidate_notes_example:
  "update_candidate_notes example_settings (\<lambda>r. Response 503 ''down'' None)
     (form_candidate_id example_form) (sync_notes (\<lambda>s. s) by_id example_db example_form)
   = Inl (HTTPException 503 (msg_notes_error @ ''down''))"
  by (simp add: update_candidate_notes_def)

theorem sync_failure_is_500_witness:
  "get_form example_db 1 = Some example_form
   \<and> update_candidate_notes example_settings (\<lambda>r. Response 503 ''down'' (None :: string option))
         (form_candidate_id example_form) (sync_notes (\<lambda>s. s) by_id example_db example_form)
       = Inl (HTTPException 503 (msg_notes_error @ ''down''))
   \<and> status_of (HTTPException 503 (msg_notes_error @ ''down'')) = Some 503
   \<and> sync_result (sync_interview_to_peopleforce example_settings (\<lambda>s. s) example_str_exc by_id
                     (\<lambda>r. Response 503 ''down'' (None :: string option)) example_db 1)
       = Inl (HTTPException 500
                (msg_sync_error
                   @ example_str_exc (HTTPException 503 (msg_notes_error @ ''down''))))
   \<and> sync_db (sync_interview_to_peopleforce example_settings (\<lambda>s. s) example_str_exc by_id
                 (\<lambda>r. Response 503 ''down'' (None :: string option)) example_db 1)
       = example_db"
  using sync_failure_is_500 [of example_settings "\<lambda>s. s" example_str_exc by_id
      "\<lambda>r. Response 503 ''down'' (None :: string option)" example_db 1 example_form
      "HTTPException 503 (msg_notes_error @ ''down'')"]
  by (simp add: get_form_example update_candidate_notes_example status_of_def)

text \<open>
  Claim C8. When no form has the given id, the endpoint raises \<open>HTTPException\<close> 404 and
  has sent no request to the remote service; the notes are not built, and the database
  is unchanged.
\<close>

theorem sync_unknown_form:
  assumes "get_form db interview_id = None"
  shows "sync_result (sync_interview_to_peopleforce st str_float str_exc rank remote db interview_id)
           = Inl (HTTPException 404 msg_form_not_found)
         \<and> sync_sent (sync_interview_to_peopleforce st str_float str_exc rank remote db interview_id)
           = []
         \<and> sync_db (sync_interview_to_peopleforce st str_float str_exc rank remote db interview_id)
           = db"
  using assms by (simp add: sync_interview_to_peopleforce_def)

theorem sync_unknown_form_witness:
  "get_form example_db 7 = None
   \<and> sync_result (sync_interview_to_peopleforce example_settings (\<lambda>s. s) example_str_exc by_id
                     (\<lambda>r. Response 200 ''{}'' (Some ''{}'')) example_db 7)
       = Inl (HTTPException 404 msg_form_not_found)
   \<and> sync_sent (sync_interview_to_peopleforce example_settings (\<lambda>s. s) example_str_exc by_id
                   (\<lambda>r. Response 200 ''{}'' (Some ''{}'')) example_db 7)
       = []"
  using sync_unknown_form [OF get_form_missing, of example_settings "\<lambda>s. s" example_str_exc
      by_id
      "\<lambda>r. Response 200 ''{}'' (Some ''{}'')"]
  by (simp add: get_form_missing)

section \<open>Ids, lookups and the insertion of membership rows\<close>



lemma get_interviewer_Some:
  "get_interviewer db i = Some iv \<Longrightarrow> iv_id iv = i \<and> iv \<in> set (interviewers db)"
  by (auto simp: get_interviewer_def find_Some_iff)

lemma get_question_Some:
  "get_question db i = Some q \<Longrightarrow> q_id q = i \<and> q \<in> set (questions db)"
  by (auto simp: get_question_def find_Some_iff)

lemma get_phrase_Some:
  "get_phrase db i = Some p \<Longrightarrow> ph_id p = i \<and> p \<in> set (predefined_phrases db)"
  by (auto simp: get_phrase_def find_Some_iff)

lemma get_phrase_None:
  "get_phrase db i = None \<longleftrightarrow> i \<notin> ph_id ` set (predefined_phrases db)"
  by (auto simp: get_phrase_def find_None_iff)




lemma insert_rows_Inr:
  "insert_rows tbl rs = Inr t \<Longrightarrow> distinct rs \<and> set rs \<inter> set tbl = {} \<and> t = tbl @ rs"
proof (induction rs arbitrary: tbl)
  case Nil
  then show ?case by simp
next
  case (Cons r rs)
  then have r: "r \<notin> set tbl" and rest: "insert_rows (tbl @ [r]) rs = Inr t"
    by (simp_all split: if_splits)
  have "distinct rs \<and> set rs \<inter> set (tbl @ [r]) = {} \<and> t = (tbl @ [r]) @ rs"
    using Cons.IH [OF rest] .
  then show ?case using r by auto
qed

lemma insert_rows_error: "insert_rows tbl rs = Inl e \<Longrightarrow> e = IntegrityError"
  by (induction rs arbitrary: tbl) (auto split: if_splits)


lemma commit_form_not_http:
  "commit_form db row members = (Inl e, db') \<Longrightarrow> e = IntegrityError \<or> e = DataError"
  by (auto simp: commit_form_def split: sum.splits if_splits dest: insert_rows_error)













section \<open>Membership: interviewers of a form, questions of a template\<close>

lemma add_interviewer_present:
  assumes "get_form db interview_id = Some form"
    and "get_interviewer db interviewer_id = Some iv"
    and "iv \<in> set (form_interviewers rank db interview_id)"
  shows "add_interviewer_to_form rank db interview_id interviewer_id
           = (Inl (HTTPException 400 msg_interviewer_already_added), db)"
  using assms get_form_id [OF assms(1)] by (simp add: add_interviewer_to_form_def)

lemma set_map_filter_eq: "set (List.map_filter f xs) = {y. \<exists>x\<in>set xs. f x = Some y}"
  by (induction xs) (auto split: option.splits)

lemma member_iff_link:
  assumes "get_interviewer db interviewer_id = Some iv"
  shows "iv \<in> set (form_interviewers rank db fid) \<longleftrightarrow> (interviewer_id, fid) \<in> set (interviewer_forms db)"
proof
  assume "iv \<in> set (form_interviewers rank db fid)"
  then obtain i where "(i, fid) \<in> set (interviewer_forms db)" "get_interviewer db i = Some iv"
    by (auto simp: form_interviewers_def joined_interviewers_def set_map_filter_eq
        split: if_splits)
  then show "(interviewer_id, fid) \<in> set (interviewer_forms db)"
    using assms get_interviewer_Some by metis
next
  assume "(interviewer_id, fid) \<in> set (interviewer_forms db)"
  then show "iv \<in> set (form_interviewers rank db fid)"
    using assms
    by (force simp: form_interviewers_def joined_interviewers_def set_map_filter_eq)
qed

lemma add_interviewer_absent:
  assumes "get_form db interview_id = Some form"
    and "get_interviewer db interviewer_id = Some iv"
    and "iv \<notin> set (form_interviewers rank db interview_id)"
  shows "add_interviewer_to_form rank db interview_id interviewer_id
           = (Inr form,
              db\<lparr>interviewer_forms := interviewer_forms db @ [(interviewer_id, interview_id)]\<rparr>)"
proof -
  have "(interviewer_id, interview_id) \<notin> set (interviewer_forms db)"
    using assms(3) member_iff_link [OF assms(2)] by simp
  then have "insert_rows (interviewer_forms db) [(interviewer_id, interview_id)]
               = Inr (interviewer_forms db @ [(interviewer_id, interview_id)])"
    by simp
  then show ?thesis
    using assms get_form_id [OF assms(1)] get_interviewer_Some [OF assms(2)]
    by (simp add: add_interviewer_to_form_def)
qed

lemma add_interviewer_twice:
  assumes "add_interviewer_to_form rank db interview_id interviewer_id = (Inr form, db')"
  shows "add_interviewer_to_form rank db' interview_id interviewer_id
           = (Inl (HTTPException 400 msg_interviewer_already_added), db')"
proof -
  obtain form' iv where f: "get_form db interview_id = Some form'"
      and i: "get_interviewer db interviewer_id = Some iv"
      and n: "iv \<notin> set (form_interviewers rank db interview_id)"
    using assms get_form_id [of db interview_id]
    by (auto simp: add_interviewer_to_form_def split: option.splits if_splits)
  have db': "db' = db\<lparr>interviewer_forms := interviewer_forms db @ [(interviewer_id, interview_id)]\<rparr>"
    using assms add_interviewer_absent [OF f i n] by simp
  have "get_form db' interview_id = Some form'" "get_interviewer db' interviewer_id = Some iv"
    using f i by (simp_all add: db' get_form_def get_interviewer_def)
  moreover from this have "iv \<in> set (form_interviewers rank db' interview_id)"
    using member_iff_link [where db = db' and interviewer_id = interviewer_id and iv = iv
        and fid = interview_id and rank = rank]
    by (simp add: db')
  ultimately show ?thesis by (rule add_interviewer_present)
qed

lemma remove_interviewer_absent:
  assumes "get_form db interview_id = Some form"
    and "get_interviewer db interviewer_id = Some iv"
    and "iv \<notin> set (form_interviewers rank db interview_id)"
  shows "remove_interviewer_from_form rank db interview_id interviewer_id
           = (Inl (HTTPException 404 msg_interviewer_not_member), db)"
  using assms get_form_id [OF assms(1)] by (simp add: remove_interviewer_from_form_def)

lemma remove_question_absent:
  assumes "get_template db template_id = Some t"
    and "get_question db question_id = Some q"
    and "q \<notin> set (template_question_rows db (tpl_id t))"
  shows "TemplateService_remove_question_from_template db template_id question_id
           = (Inl (HTTPException 404
                     (msg_question_with_id @ str_int question_id @ msg_not_in_template_suffix)),
              db)"
  using assms
  by (simp add: TemplateService_remove_question_from_template_def get_template_by_id_def)

lemma append_questions_error:
  "append_questions db acc ids = Inl e \<Longrightarrow> \<exists>d. e = HTTPException 404 d"
  by (induction ids arbitrary: acc) (auto split: option.splits)

lemma add_questions_never_conflict:
  "fst (TemplateService_add_questions_to_template reinsert db template_id question_ids)
     \<noteq> Inl (HTTPException 400 d)"
  by (auto simp: TemplateService_add_questions_to_template_def get_template_by_id_def Let_def
      split: option.splits sum.splits dest: append_questions_error insert_rows_error)

text \<open>
  Claim C5. The claim asks that adding a member that is already present fails with a
  Conflict, for both relations. \<open>add_interviewer_to_form\<close> tests the membership and does
  so; \<open>add_questions_to_template\<close> has no such test. Adding question 5 to template 1,
  which holds it already, ends either as a success that changes nothing or with the
  database's integrity error, according to what the mapper writes for a member appended
  again; it never ends with the Conflict of the claim.
\<close>

theorem add_questions_member_again:
  "example_question \<in> set (template_question_rows example_db 1)
   \<and> TemplateService_add_questions_to_template reinsert example_db 1 [5]
       = (if reinsert then Inl IntegrityError else Inr example_template, example_db)"
proof -
  have "tpl_id example_template = 1" "q_id example_question = 5"
    by (simp_all add: example_template_def example_question_def)
  moreover have "example_db\<lparr>template_questions := [(1, 5)]\<rparr> = example_db"
    by (simp add: example_db_def)
  ultimately show ?thesis
    by (simp add: TemplateService_add_questions_to_template_def get_template_by_id_def
        get_template_example get_question_example template_question_rows_example
        example_links)
qed

section \<open>Feedback and its phrases\<close>

lemma append_phrases_set:
  "set (append_phrases db acc ids) = set acc \<union> {p. \<exists>i\<in>set ids. get_phrase db i = Some p}"
  by (induction ids arbitrary: acc) (auto split: option.splits)

lemma append_phrases_ids:
  "ph_id ` set (append_phrases db [] ids) = existing_phrase_ids db ids"
  by (auto simp: append_phrases_set existing_phrase_ids_def image_iff
      dest: get_phrase_Some)

lemma existing_phrase_ids_rows:
  "existing_phrase_ids db ids = set ids \<inter> ph_id ` set (predefined_phrases db)"
  by (auto simp: existing_phrase_ids_def get_phrase_None)

lemma set_feedback_ids_ids:
  "map ph_id (set_feedback_ids fid original current tbl) = map ph_id tbl"
  by (simp add: set_feedback_ids_def comp_def)

lemma set_feedback_ids_member:
  assumes "p \<in> set (set_feedback_ids fid original current tbl)"
    and "ph_id p \<in> ph_id ` set current"
  shows "ph_feedback_id p = Some fid"
  using assms by (auto simp: set_feedback_ids_def split: if_splits)


lemma create_feedback_result:
  "\<exists>db'. create_feedback db interview_id content ids
           = (Inr \<lparr> fb_id = next_id (map fb_id (feedbacks db)), fb_text = content,
                    fb_interview_form_id = interview_id \<rparr>, db')
         \<and> feedbacks db' = feedbacks db
              @ [\<lparr> fb_id = next_id (map fb_id (feedbacks db)), fb_text = content,
                    fb_interview_form_id = interview_id \<rparr>]
         \<and> predefined_phrases db'
              = set_feedback_ids (next_id (map fb_id (feedbacks db))) []
                  (append_phrases db [] ids) (predefined_phrases db)"
  by (simp add: create_feedback_def Let_def)




lemma service_update_result:
  assumes "get_form db interview_id = Some form"
    and "get_feedback db interview_id = Some existing"
  shows "InterviewService_add_feedback db interview_id data
           = (Inr (existing\<lparr>fb_text := c_text data\<rparr>),
              db\<lparr> feedbacks :=
                    map (\<lambda>f. if fb_id f = fb_id existing then f\<lparr>fb_text := c_text data\<rparr> else f)
                      (feedbacks db),
                  predefined_phrases :=
                    set_feedback_ids (fb_id existing) (feedback_phrases db (fb_id existing))
                      (append_phrases db [] (c_predefined_phrase_ids data))
                      (predefined_phrases db) \<rparr>)"
  using assms by (simp add: InterviewService_add_feedback_def get_interview_by_id_def Let_def)










text \<open>
  Claim C6, the claim as stated fails. Phrase 1 is attached to feedback 1; a feedback
  added to form 2 with phrase 1 takes the phrase, and feedback 1 is left without it.
\<close>

theorem phrase_moves_to_new_feedback:
  "feedback_phrases example_db 1 = [example_phrase]
   \<and> feedback_phrases (snd (add_feedback example_db 2 (example_feedback_create [1]))) 1 = []
   \<and> feedback_phrases (snd (add_feedback example_db 2 (example_feedback_create [1]))) 2
       = [example_phrase\<lparr>ph_feedback_id := Some 2\<rparr>]"
proof -
  have "feedbacks example_db = [example_feedback]"
    "predefined_phrases example_db = [example_phrase, second_phrase]"
    by (simp_all add: example_db_def)
  moreover have "fb_id example_feedback = 1" "ph_id example_phrase = 1" "ph_id second_phrase = 2"
    "ph_feedback_id example_phrase = Some 1" "ph_feedback_id second_phrase = None"
    by (simp_all add: example_feedback_def example_phrase_def second_phrase_def)
  ultimately show ?thesis
    by (simp add: feedback_phrases_example add_feedback_def get_form_second get_feedback_second
        create_feedback_def Let_def example_feedback_create_def get_phrase_example
        next_id_def set_feedback_ids_def feedback_phrases_def)
qed

lemma phrase_taken:
  assumes "p \<in> set (set_feedback_ids fid original (append_phrases db [] ids)
                       (predefined_phrases db))"
    and "ph_id p \<in> set ids"
  shows "ph_feedback_id p = Some fid"
proof -
  have "ph_id p \<in> ph_id ` set (predefined_phrases db)"
    using assms(1) set_feedback_ids_ids [of fid original "append_phrases db [] ids"
        "predefined_phrases db"]
    by (metis image_eqI list.set_map)
  then have "ph_id p \<in> existing_phrase_ids db ids"
    using assms(2) by (simp add: existing_phrase_ids_rows)
  then have "ph_id p \<in> ph_id ` set (append_phrases db [] ids)"
    by (simp add: append_phrases_ids)
  with assms(1) show ?thesis by (rule set_feedback_ids_member)
qed

lemma create_feedback_takes:
  assumes "create_feedback db interview_id content ids = (Inr fb, db')"
    and "p \<in> set (predefined_phrases db')" and "ph_id p \<in> set ids"
  shows "ph_feedback_id p = Some (fb_id fb)"
  using assms create_feedback_result [of db interview_id content ids]
  by (auto intro: phrase_taken)

text \<open>
  Claim C6, as amended. A phrase row carries one \<open>feedback_id\<close>, so the relation is
  one-to-many: two distinct feedbacks never share a phrase, and after a feedback was
  submitted through either entry point, every phrase of the submitted ids points to the
  returned feedback, hence is attached to no other feedback.
\<close>

theorem phrase_has_one_feedback:
  "(a \<noteq> b \<longrightarrow> set (feedback_phrases db a) \<inter> set (feedback_phrases db b) = {})
   \<and> (add_feedback db interview_id data = (Inr fb, db') \<longrightarrow>
        (\<forall>p\<in>set (predefined_phrases db').
           ph_id p \<in> set (c_predefined_phrase_ids data) \<longrightarrow>
           ph_feedback_id p = Some (fb_id fb)
           \<and> (\<forall>c. c \<noteq> fb_id fb \<longrightarrow> p \<notin> set (feedback_phrases db' c))))
   \<and> (InterviewService_add_feedback db interview_id data = (Inr fb, db') \<longrightarrow>
        (\<forall>p\<in>set (predefined_phrases db').
           ph_id p \<in> set (c_predefined_phrase_ids data) \<longrightarrow>
           ph_feedback_id p = Some (fb_id fb)
           \<and> (\<forall>c. c \<noteq> fb_id fb \<longrightarrow> p \<notin> set (feedback_phrases db' c))))"
proof (intro conjI impI ballI)
  assume "a \<noteq> b"
  then show "set (feedback_phrases db a) \<inter> set (feedback_phrases db b) = {}"
    by (auto simp: feedback_phrases_def)
next
  fix p
  assume ok: "add_feedback db interview_id data = (Inr fb, db')"
    and p: "p \<in> set (predefined_phrases db')" "ph_id p \<in> set (c_predefined_phrase_ids data)"
  have "create_feedback db interview_id (c_text data) (c_predefined_phrase_ids data)
          = (Inr fb, db')"
    using ok by (auto simp: add_feedback_def split: option.splits)
  then show "ph_feedback_id p = Some (fb_id fb)"
    using p by (rule create_feedback_takes)
  then show "\<forall>c. c \<noteq> fb_id fb \<longrightarrow> p \<notin> set (feedback_phrases db' c)"
    by (auto simp: feedback_phrases_def)
next
  fix p
  assume ok: "InterviewService_add_feedback db interview_id data = (Inr fb, db')"
    and p: "p \<in> set (predefined_phrases db')" "ph_id p \<in> set (c_predefined_phrase_ids data)"
  obtain form where form: "get_form db interview_id = Some form"
    using ok
    by (auto simp: InterviewService_add_feedback_def get_interview_by_id_def
        split: option.splits)
  show "ph_feedback_id p = Some (fb_id fb)"
  proof (cases "get_feedback db interview_id")
    case None
    then have "create_feedback db interview_id (c_text data) (c_predefined_phrase_ids data)
          = (Inr fb, db')"
      using ok form by (simp add: InterviewService_add_feedback_def get_interview_by_id_def)
    then show ?thesis using p by (rule create_feedback_takes)
  next
    case (Some existing)
    then show ?thesis
      using ok p service_update_result [OF form Some, of data]
      by (auto intro: phrase_taken)
  qed
  then show "\<forall>c. c \<noteq> fb_id fb \<longrightarrow> p \<notin> set (feedback_phrases db' c)"
    by (auto simp: feedback_phrases_def)
qed

theorem phrase_has_one_feedback_witness:
  "(1::int) \<noteq> 2
   \<and> set (feedback_phrases example_db 1) \<inter> set (feedback_phrases example_db 2) = {}
   \<and> add_feedback example_db 2 (example_feedback_create [1])
       = (Inr \<lparr>fb_id = 2, fb_text = ''Good'', fb_interview_form_id = 2\<rparr>,
          snd (add_feedback example_db 2 (example_feedback_create [1])))
   \<and> example_phrase\<lparr>ph_feedback_id := Some 2\<rparr>
       \<in> set (predefined_phrases (snd (add_feedback example_db 2 (example_feedback_create [1]))))
   \<and> ph_id (example_phrase\<lparr>ph_feedback_id := Some 2\<rparr>) \<in> set [1]
   \<and> example_phrase\<lparr>ph_feedback_id := Some 2\<rparr>
       \<notin> set (feedback_phrases (snd (add_feedback example_db 2 (example_feedback_create [1])))
                1)"
proof -
  have tables: "feedbacks example_db = [example_feedback]" "fb_id example_feedback = 1"
    "predefined_phrases example_db = [example_phrase, second_phrase]"
    "ph_id example_phrase = 1" "ph_id second_phrase = 2"
    by (simp_all add: example_db_def example_feedback_def example_phrase_def second_phrase_def)
  then have run: "add_feedback example_db 2 (example_feedback_create [1])
          = (Inr \<lparr>fb_id = 2, fb_text = ''Good'', fb_interview_form_id = 2\<rparr>,
             snd (add_feedback example_db 2 (example_feedback_create [1])))"
    by (simp add: add_feedback_def get_form_second get_feedback_second create_feedback_def
        Let_def example_feedback_create_def next_id_def)
  have row: "example_phrase\<lparr>ph_feedback_id := Some 2\<rparr>
       \<in> set (predefined_phrases (snd (add_feedback example_db 2 (example_feedback_create [1]))))"
    using tables
    by (simp add: add_feedback_def get_form_second get_feedback_second create_feedback_def
        Let_def example_feedback_create_def next_id_def get_phrase_example
        set_feedback_ids_def)
  show ?thesis
    using phrase_has_one_feedback [of 1 2 example_db 2 "example_feedback_create [1]"
        "\<lparr>fb_id = 2, fb_text = ''Good'', fb_interview_form_id = 2\<rparr>"
        "snd (add_feedback example_db 2 (example_feedback_create [1]))"] run row tables(4)
    by (auto simp: example_feedback_create_def)
qed

section \<open>Listings and their filters\<close>

text \<open>
  Claim C9. A filter argument that Python takes for false is no filter: the scores of a
  form asked with interviewer id 0 are the scores asked with no interviewer id; the
  questions asked with unit, difficulty, level or group id 0 or with the empty search
  text are the questions asked without that argument; the interviews asked with the empty
  candidate id or the empty position are the interviews asked without it.
\<close>

theorem falsy_filter_is_no_filter:
  "InterviewService_get_scores db interview_id (Some 0)
     = InterviewService_get_scores db interview_id None
   \<and> QuestionService_get_questions ilike db skip limit (Some 0) d l g t
     = QuestionService_get_questions ilike db skip limit None d l g t
   \<and> QuestionService_get_questions ilike db skip limit u (Some 0) l g t
     = QuestionService_get_questions ilike db skip limit u None l g t
   \<and> QuestionService_get_questions ilike db skip limit u d (Some 0) g t
     = QuestionService_get_questions ilike db skip limit u d None g t
   \<and> QuestionService_get_questions ilike db skip limit u d l (Some 0) t
     = QuestionService_get_questions ilike db skip limit u d l None t
   \<and> QuestionService_get_questions ilike db skip limit u d l g (Some [])
     = QuestionService_get_questions ilike db skip limit u d l g None
   \<and> InterviewService_get_interviews ilike db skip limit (Some []) p s e
     = InterviewService_get_interviews ilike db skip limit None p s e
   \<and> InterviewService_get_interviews ilike db skip limit c (Some []) s e
     = InterviewService_get_interviews ilike db skip limit c None s e"
  by (simp add: InterviewService_get_scores_def QuestionService_get_questions_def
      InterviewService_get_interviews_def truthy_int_def truthy_str_def Let_def
      split: sum.split)

theorem falsy_filter_is_no_filter_witness:
  "InterviewService_get_scores example_db 1 (Some 0)
     = InterviewService_get_scores example_db 1 None
   \<and> InterviewService_get_scores example_db 1 (Some 0) = Inr [example_score]
   \<and> InterviewService_get_scores example_db 1 (Some 2) = Inr []
   \<and> QuestionService_get_questions (\<lambda>c p. True) example_db 0 100 (Some 0) None None None None
       = Inr [example_question, second_question]
   \<and> QuestionService_get_questions (\<lambda>c p. True) example_db 0 100 (Some 2) None None None None
       = Inr [example_question]"
proof -
  have "scores example_db = [example_score]"
    "questions example_db = [example_question, second_question]"
    by (simp_all add: example_db_def)
  moreover have "sc_interview_form_id example_score = 1" "sc_interviewer_id example_score = 1"
    "q_unit_id example_question = Some 2" "q_unit_id second_question = None"
    by (simp_all add: example_score_def example_question_def second_question_def)
  ultimately show ?thesis
    using falsy_filter_is_no_filter [where db = example_db and interview_id = 1
        and ilike = "\<lambda>c p. True" and skip = 0 and limit = 100 and u = None and d = None
        and l = None and g = None and t = None and c = None and p = None and s = None
        and e = None]
    by (simp add: InterviewService_get_scores_def QuestionService_get_questions_def
        get_interview_by_id_def get_form_example truthy_int_def truthy_str_def
        offset_limit_def Let_def)
qed


end
